theory Spec2Isabelle
  imports Main "HOL-Library.Word"
begin

unbundle bit_operations_syntax

section \<open>Hardware flow offload bookkeeping of lib/netdev-rte-offloads.c\<close>

text \<open>
  A shallow embedding of the flow identity registry, the pattern compiler, the
  flow lifecycle functions, the tunnel outer-id pool and the miss-context store of
  \<^verbatim>\<open>lib/netdev-rte-offloads.c\<close>.

  Conventions of the embedding.
  \<^item> A C pointer to an object that is only compared and passed on (\<^verbatim>\<open>struct netdev *\<close>,
    \<^verbatim>\<open>struct rte_flow *\<close>) is a natural number naming the object; a pointer that may
    be NULL is an \<open>option\<close>.
  \<^item> \<^verbatim>\<open>ovs_be16\<close>, \<^verbatim>\<open>ovs_be32\<close> and \<^verbatim>\<open>ovs_be64\<close> values are words holding the
    numeric value of the field, so \<^verbatim>\<open>htons\<close> and \<^verbatim>\<open>ntohs\<close> are the identity; the
    bitwise operations of the source commute with the byte swap.
  \<^item> \<^verbatim>\<open>xzalloc\<close>, \<^verbatim>\<open>xmalloc\<close> and \<^verbatim>\<open>xcalloc\<close> abort the process when memory runs
    out, so an allocation always yields an object and the NULL branches after them
    are never taken.
  \<^item> Every call into the DPDK driver is appended to a trace kept in the state; what
    the driver answers is a function of the trace so far and of the arguments.
\<close>

subsection \<open>Scalar types and constants\<close>

type_synonym odp_port_t = "32 word"
type_synonym ovs_u128 = "128 word"

text \<open>
  A \<^verbatim>\<open>struct netdev *\<close> is the address of the device object, \<open>0\<close> being NULL (the
  source never tests one). A \<^verbatim>\<open>struct rte_flow *\<close> is tested against NULL
  throughout, so a possibly-NULL handle is an \<open>option\<close>.
\<close>

type_synonym netdev = nat
type_synonym rte_flow = nat

definition INVALID_ODP_PORT :: odp_port_t where
  "INVALID_ODP_PORT = - 1"

definition RTE_FLOW_MAX_TABLES :: nat where
  "RTE_FLOW_MAX_TABLES = 31"

definition EINVAL :: int where "EINVAL = 22"
definition ENOMEM :: int where "ENOMEM = 12"
definition ENODEV :: int where "ENODEV = 19"
definition EOPNOTSUPP :: int where "EOPNOTSUPP = 95"

text \<open>\<^verbatim>\<open>enum table_ids\<close>.\<close>

definition UNKNOWN_TABLE_ID :: "32 word" where "UNKNOWN_TABLE_ID = 0"
definition ROOT_TABLE_ID :: "32 word" where "ROOT_TABLE_ID = 1"
definition VXLAN_TABLE_ID :: "32 word" where "VXLAN_TABLE_ID = 2"

datatype rte_port_type = RTE_PORT_TYPE_UNKNOWN | RTE_PORT_TYPE_DPDK | RTE_PORT_TYPE_VXLAN

subsection \<open>What the driver is handed: attributes, items, actions\<close>

record rte_flow_attr =
  attr_group :: "32 word"
  attr_priority :: "32 word"
  attr_ingress :: bool
  attr_egress :: bool
  attr_transfer :: bool

datatype rte_flow_item_type =
  RTE_FLOW_ITEM_TYPE_END
  | RTE_FLOW_ITEM_TYPE_ETH
  | RTE_FLOW_ITEM_TYPE_VLAN
  | RTE_FLOW_ITEM_TYPE_IPV4
  | RTE_FLOW_ITEM_TYPE_ICMP
  | RTE_FLOW_ITEM_TYPE_UDP
  | RTE_FLOW_ITEM_TYPE_TCP
  | RTE_FLOW_ITEM_TYPE_SCTP
  | RTE_FLOW_ITEM_TYPE_VXLAN

record rte_flow_item_eth =
  eth_dst :: "48 word"
  eth_src :: "48 word"
  eth_type :: "16 word"

record rte_flow_item_vlan =
  vlan_tci :: "16 word"
  vlan_inner_type :: "16 word"

record rte_flow_item_ipv4 =
  type_of_service :: "8 word"
  time_to_live :: "8 word"
  next_proto_id :: "8 word"
  src_addr :: "32 word"
  dst_addr :: "32 word"

record rte_flow_item_vxlan =
  vxlan_flags :: "8 word"
  vxlan_vni :: "8 word list"

record rte_flow_item_tcp =
  tcp_src_port :: "16 word"
  tcp_dst_port :: "16 word"
  tcp_data_off :: "8 word"
  tcp_tcp_flags :: "8 word"

record rte_flow_item_udp =
  udp_src_port :: "16 word"
  udp_dst_port :: "16 word"

record rte_flow_item_sctp =
  sctp_src_port :: "16 word"
  sctp_dst_port :: "16 word"

record rte_flow_item_icmp =
  icmp_type :: "8 word"
  icmp_code :: "8 word"

text \<open>
  \<^verbatim>\<open>struct flow_items\<close>. The four transport members share storage in the C union;
  each translation writes at most one of them after the \<^verbatim>\<open>memset\<close> and an item reads
  only the member that was written, so they are kept as separate fields.
\<close>

record flow_items =
  fi_eth :: rte_flow_item_eth
  fi_vlan :: rte_flow_item_vlan
  fi_ipv4 :: rte_flow_item_ipv4
  fi_vxlan :: rte_flow_item_vxlan
  fi_tcp :: rte_flow_item_tcp
  fi_udp :: rte_flow_item_udp
  fi_sctp :: rte_flow_item_sctp
  fi_icmp :: rte_flow_item_icmp

definition flow_items_zero :: flow_items where
  "flow_items_zero =
     \<lparr>fi_eth = \<lparr>eth_dst = 0, eth_src = 0, eth_type = 0\<rparr>,
      fi_vlan = \<lparr>vlan_tci = 0, vlan_inner_type = 0\<rparr>,
      fi_ipv4 = \<lparr>type_of_service = 0, time_to_live = 0, next_proto_id = 0,
                 src_addr = 0, dst_addr = 0\<rparr>,
      fi_vxlan = \<lparr>vxlan_flags = 0, vxlan_vni = [0, 0, 0]\<rparr>,
      fi_tcp = \<lparr>tcp_src_port = 0, tcp_dst_port = 0, tcp_data_off = 0, tcp_tcp_flags = 0\<rparr>,
      fi_udp = \<lparr>udp_src_port = 0, udp_dst_port = 0\<rparr>,
      fi_sctp = \<lparr>sctp_src_port = 0, sctp_dst_port = 0\<rparr>,
      fi_icmp = \<lparr>icmp_type = 0, icmp_code = 0\<rparr>\<rparr>"

text \<open>
  An item of the pattern array holds two pointers into a \<^verbatim>\<open>struct flow_items\<close>
  of the caller: which structure (a number) and which member. The structures are
  written after the item was appended, so the driver sees what they hold when it is
  called; \<open>item_val\<close> is an item with both pointers followed.
\<close>

datatype flow_items_member =
  M_eth | M_vlan | M_ipv4 | M_vxlan | M_tcp | M_udp | M_sctp | M_icmp

datatype item_ptr = Item_ptr nat flow_items_member

record rte_flow_item =
  item_type :: rte_flow_item_type
  item_spec :: "item_ptr option"
  item_mask :: "item_ptr option"

datatype item_data =
  Data_eth rte_flow_item_eth
  | Data_vlan rte_flow_item_vlan
  | Data_ipv4 rte_flow_item_ipv4
  | Data_vxlan rte_flow_item_vxlan
  | Data_tcp rte_flow_item_tcp
  | Data_udp rte_flow_item_udp
  | Data_sctp rte_flow_item_sctp
  | Data_icmp rte_flow_item_icmp

record item_val =
  val_type :: rte_flow_item_type
  val_spec :: "item_data option"
  val_mask :: "item_data option"

fun member_of :: "flow_items \<Rightarrow> flow_items_member \<Rightarrow> item_data" where
  "member_of fi M_eth = Data_eth (fi_eth fi)"
| "member_of fi M_vlan = Data_vlan (fi_vlan fi)"
| "member_of fi M_ipv4 = Data_ipv4 (fi_ipv4 fi)"
| "member_of fi M_vxlan = Data_vxlan (fi_vxlan fi)"
| "member_of fi M_tcp = Data_tcp (fi_tcp fi)"
| "member_of fi M_udp = Data_udp (fi_udp fi)"
| "member_of fi M_sctp = Data_sctp (fi_sctp fi)"
| "member_of fi M_icmp = Data_icmp (fi_icmp fi)"

fun deref_item_ptr :: "(nat \<Rightarrow> flow_items) \<Rightarrow> item_ptr option \<Rightarrow> item_data option" where
  "deref_item_ptr mem None = None"
| "deref_item_ptr mem (Some (Item_ptr n m)) = Some (member_of (mem n) m)"

definition deref_item :: "(nat \<Rightarrow> flow_items) \<Rightarrow> rte_flow_item \<Rightarrow> item_val" where
  "deref_item mem it =
     \<lparr>val_type = item_type it,
      val_spec = deref_item_ptr mem (item_spec it),
      val_mask = deref_item_ptr mem (item_mask it)\<rparr>"

datatype rte_flow_action_type =
  RTE_FLOW_ACTION_TYPE_END
  | RTE_FLOW_ACTION_TYPE_JUMP
  | RTE_FLOW_ACTION_TYPE_MARK
  | RTE_FLOW_ACTION_TYPE_COUNT
  | RTE_FLOW_ACTION_TYPE_RSS
  | RTE_FLOW_ACTION_TYPE_PORT_ID
  | RTE_FLOW_ACTION_TYPE_RAW_ENCAP
  | RTE_FLOW_ACTION_TYPE_VXLAN_DECAP

record rte_flow_action_count =
  count_shared :: "32 word"
  count_id :: "32 word"

record rte_flow_action_port_id =
  port_id_original :: "32 word"
  port_id_id :: "32 word"

record rte_flow_action_raw_encap =
  encap_data :: "8 word list"
  encap_size :: nat

record rte_flow_action_rss =
  rss_queue_num :: "16 word"
  rss_queue :: "16 word list"

text \<open>
  The configuration structures an action can point to are locals of the function
  that builds the action list; \<open>action_confs\<close> is that set of locals and an action
  names the one it points to. As for items, the driver sees their contents at the
  time of the call.
\<close>

record action_confs =
  c_jump :: "32 word"
  c_count :: rte_flow_action_count
  c_output :: rte_flow_action_port_id
  c_clone_output :: rte_flow_action_port_id
  c_clone_count :: rte_flow_action_count
  c_clone_raw_encap :: rte_flow_action_raw_encap
  c_mark :: "32 word"
  c_rss :: rte_flow_action_rss

definition action_confs_zero :: action_confs where
  "action_confs_zero =
     \<lparr>c_jump = 0,
      c_count = \<lparr>count_shared = 0, count_id = 0\<rparr>,
      c_output = \<lparr>port_id_original = 0, port_id_id = 0\<rparr>,
      c_clone_output = \<lparr>port_id_original = 0, port_id_id = 0\<rparr>,
      c_clone_count = \<lparr>count_shared = 0, count_id = 0\<rparr>,
      c_clone_raw_encap = \<lparr>encap_data = [], encap_size = 0\<rparr>,
      c_mark = 0,
      c_rss = \<lparr>rss_queue_num = 0, rss_queue = []\<rparr>\<rparr>"

datatype conf_ptr =
  P_jump | P_count | P_output | P_clone_output | P_clone_count | P_clone_raw_encap
  | P_mark | P_rss

record rte_flow_action =
  action_type :: rte_flow_action_type
  action_conf :: "conf_ptr option"

datatype conf_data =
  Conf_jump "32 word"
  | Conf_count rte_flow_action_count
  | Conf_port_id rte_flow_action_port_id
  | Conf_raw_encap rte_flow_action_raw_encap
  | Conf_mark "32 word"
  | Conf_rss rte_flow_action_rss

record action_val =
  aval_type :: rte_flow_action_type
  aval_conf :: "conf_data option"

fun deref_conf_ptr :: "action_confs \<Rightarrow> conf_ptr option \<Rightarrow> conf_data option" where
  "deref_conf_ptr c None = None"
| "deref_conf_ptr c (Some P_jump) = Some (Conf_jump (c_jump c))"
| "deref_conf_ptr c (Some P_count) = Some (Conf_count (c_count c))"
| "deref_conf_ptr c (Some P_output) = Some (Conf_port_id (c_output c))"
| "deref_conf_ptr c (Some P_clone_output) = Some (Conf_port_id (c_clone_output c))"
| "deref_conf_ptr c (Some P_clone_count) = Some (Conf_count (c_clone_count c))"
| "deref_conf_ptr c (Some P_clone_raw_encap) = Some (Conf_raw_encap (c_clone_raw_encap c))"
| "deref_conf_ptr c (Some P_mark) = Some (Conf_mark (c_mark c))"
| "deref_conf_ptr c (Some P_rss) = Some (Conf_rss (c_rss c))"

definition deref_action :: "action_confs \<Rightarrow> rte_flow_action \<Rightarrow> action_val" where
  "deref_action c a =
     \<lparr>aval_type = action_type a, aval_conf = deref_conf_ptr c (action_conf a)\<rparr>"

subsection \<open>The driver and the trace of calls into it\<close>

text \<open>
  \<^verbatim>\<open>netdev_dpdk_rte_flow_create\<close>, \<^verbatim>\<open>netdev_dpdk_rte_flow_destroy\<close>,
  \<^verbatim>\<open>netdev_dpdk_is_uplink_port\<close> and \<^verbatim>\<open>netdev_n_rxq\<close> belong to the driver side.
  A call is recorded with its arguments and its answer.
\<close>

datatype drv_call =
  Flow_create netdev rte_flow_attr "item_val list" "action_val list" "rte_flow option"
  | Flow_destroy netdev rte_flow int

record driver =
  drv_flow_create ::
    "drv_call list \<Rightarrow> netdev \<Rightarrow> rte_flow_attr \<Rightarrow> item_val list \<Rightarrow> action_val list
       \<Rightarrow> rte_flow option"
  drv_flow_destroy :: "drv_call list \<Rightarrow> netdev \<Rightarrow> rte_flow \<Rightarrow> int"
  drv_is_uplink_port :: "netdev \<Rightarrow> bool"
  drv_n_rxq :: "netdev \<Rightarrow> int"

subsection \<open>Flow identity records\<close>

record rte_flow_params =
  rfp_flow :: "rte_flow option"
  rfp_netdev :: netdev

record ufid_hw_offload =
  ufid :: ovs_u128
  max_flows :: int
  curr_idx :: int
  rte_flow_data :: "rte_flow_params list"

text \<open>
  \<^verbatim>\<open>netdev_rte_port_ufid_hw_offload_alloc\<close>: the array has \<open>max_flows\<close> zeroed
  elements.
\<close>

definition netdev_rte_port_ufid_hw_offload_alloc :: "int \<Rightarrow> ovs_u128 \<Rightarrow> ufid_hw_offload" where
  "netdev_rte_port_ufid_hw_offload_alloc mf u =
     \<lparr>ufid = u, max_flows = mf, curr_idx = 0,
      rte_flow_data = replicate (nat mf) \<lparr>rfp_flow = None, rfp_netdev = 0\<rparr>\<rparr>"


definition netdev_dpdk_rte_flow_create ::
  "driver \<Rightarrow> netdev \<Rightarrow> rte_flow_attr \<Rightarrow> item_val list \<Rightarrow> action_val list \<Rightarrow> drv_call list
     \<Rightarrow> rte_flow option \<times> drv_call list" where
  "netdev_dpdk_rte_flow_create D nd attr its acts tr =
     (let r = drv_flow_create D tr nd attr its acts
      in (r, tr @ [Flow_create nd attr its acts r]))"

definition netdev_dpdk_rte_flow_destroy ::
  "driver \<Rightarrow> netdev \<Rightarrow> rte_flow \<Rightarrow> drv_call list \<Rightarrow> int \<times> drv_call list" where
  "netdev_dpdk_rte_flow_destroy D nd f tr =
     (let r = drv_flow_destroy D tr nd f
      in (r, tr @ [Flow_destroy nd f r]))"

text \<open>
  \<^verbatim>\<open>ufid_hw_offload_add_rte_flow\<close>: the handle is stored at \<open>curr_idx\<close> while there
  is room; otherwise it is handed back to the driver at once. The answer of the
  driver is only logged.
\<close>

definition ufid_hw_offload_add_rte_flow ::
  "driver \<Rightarrow> ufid_hw_offload \<Rightarrow> rte_flow \<Rightarrow> netdev \<Rightarrow> drv_call list
     \<Rightarrow> ufid_hw_offload \<times> drv_call list" where
  "ufid_hw_offload_add_rte_flow D hw_offload f nd tr =
     (if curr_idx hw_offload < max_flows hw_offload then
        (hw_offload
           \<lparr>rte_flow_data :=
              (rte_flow_data hw_offload)
                [nat (curr_idx hw_offload) := \<lparr>rfp_flow = Some f, rfp_netdev = nd\<rparr>],
            curr_idx := curr_idx hw_offload + 1\<rparr>,
         tr)
      else (hw_offload, snd (netdev_dpdk_rte_flow_destroy D nd f tr)))"

text \<open>
  The loop of \<^verbatim>\<open>netdev_rte_port_ufid_hw_offload_free\<close> over the elements below
  \<open>curr_idx\<close>: every element holding a handle is destroyed through the driver, a
  failure is logged and the loop goes on.
\<close>

fun hw_offload_destroy_flows :: "driver \<Rightarrow> rte_flow_params list \<Rightarrow> drv_call list \<Rightarrow> drv_call list" where
  "hw_offload_destroy_flows D [] tr = tr"
| "hw_offload_destroy_flows D (p # ps) tr =
     (case rfp_flow p of
        None \<Rightarrow> hw_offload_destroy_flows D ps tr
      | Some f \<Rightarrow>
          hw_offload_destroy_flows D ps (snd (netdev_dpdk_rte_flow_destroy D (rfp_netdev p) f tr)))"

definition netdev_rte_port_ufid_hw_offload_free ::
  "driver \<Rightarrow> ufid_hw_offload \<Rightarrow> drv_call list \<Rightarrow> int \<times> drv_call list" where
  "netdev_rte_port_ufid_hw_offload_free D hw_offload tr =
     (0, hw_offload_destroy_flows D
           (take (nat (curr_idx hw_offload)) (rte_flow_data hw_offload)) tr)"

subsection \<open>Maps\<close>

text \<open>
  Modelled from the spec: the concurrent hash map (\<^verbatim>\<open>lib/cmap.c\<close> is not part of the
  sources at hand), "a generic concurrent map keyed by fixed-size keys". A map is
  the list of its nodes in iteration order; \<^verbatim>\<open>cmap_insert\<close> adds a node without
  looking for its key, \<^verbatim>\<open>CMAP_FOR_EACH_WITH_HASH\<close> with a key test is \<open>find\<close>,
  \<^verbatim>\<open>cmap_remove\<close> takes out the node that the search found, and a write through
  the pointer that a search returned is \<open>cmap_update\<close>.
\<close>

definition cmap_insert :: "'a \<Rightarrow> 'a list \<Rightarrow> 'a list" where
  "cmap_insert x m = x # m"

fun cmap_remove :: "('a \<Rightarrow> bool) \<Rightarrow> 'a list \<Rightarrow> 'a list" where
  "cmap_remove P [] = []"
| "cmap_remove P (x # xs) = (if P x then xs else x # cmap_remove P xs)"

fun cmap_update :: "('a \<Rightarrow> bool) \<Rightarrow> ('a \<Rightarrow> 'a) \<Rightarrow> 'a list \<Rightarrow> 'a list" where
  "cmap_update P f [] = []"
| "cmap_update P f (x # xs) = (if P x then f x # xs else x # cmap_update P f xs)"

definition ufid_hw_offload_find :: "ovs_u128 \<Rightarrow> ufid_hw_offload list \<Rightarrow> ufid_hw_offload option" where
  "ufid_hw_offload_find u m = find (\<lambda>d. u = ufid d) m"

definition ufid_hw_offload_remove ::
  "ovs_u128 \<Rightarrow> ufid_hw_offload list \<Rightarrow> ufid_hw_offload option \<times> ufid_hw_offload list" where
  "ufid_hw_offload_remove u m =
     (case ufid_hw_offload_find u m of
        None \<Rightarrow> (None, m)
      | Some d \<Rightarrow> (Some d, cmap_remove (\<lambda>d. u = ufid d) m))"

definition ufid_hw_offload_add :: "ufid_hw_offload \<Rightarrow> ufid_hw_offload list \<Rightarrow> ufid_hw_offload list" where
  "ufid_hw_offload_add hw_offload m = cmap_insert hw_offload m"

record ufid_to_odp =
  uo_ufid :: ovs_u128
  uo_dp_port :: odp_port_t

definition ufid_to_portid_get :: "ufid_to_odp list \<Rightarrow> ovs_u128 \<Rightarrow> ufid_to_odp option" where
  "ufid_to_portid_get m u = find (\<lambda>d. u = uo_ufid d) m"

definition ufid_to_portid_search :: "ufid_to_odp list \<Rightarrow> ovs_u128 \<Rightarrow> odp_port_t" where
  "ufid_to_portid_search m u =
     (case ufid_to_portid_get m u of Some d \<Rightarrow> uo_dp_port d | None \<Rightarrow> INVALID_ODP_PORT)"

definition ufid_to_portid_add ::
  "ufid_to_odp list \<Rightarrow> ovs_u128 \<Rightarrow> odp_port_t \<Rightarrow> odp_port_t \<times> ufid_to_odp list" where
  "ufid_to_portid_add m u p =
     (if ufid_to_portid_search m u \<noteq> INVALID_ODP_PORT then (p, m)
      else (p, cmap_insert \<lparr>uo_ufid = u, uo_dp_port = p\<rparr> m))"

definition ufid_to_portid_remove :: "ufid_to_odp list \<Rightarrow> ovs_u128 \<Rightarrow> ufid_to_odp list" where
  "ufid_to_portid_remove m u =
     (case ufid_to_portid_get m u of
        Some d \<Rightarrow> cmap_remove (\<lambda>d. u = uo_ufid d) m
      | None \<Rightarrow> m)"

subsection \<open>The software match\<close>

text \<open>
  \<^verbatim>\<open>struct flow_tnl\<close>, \<^verbatim>\<open>struct flow\<close> and \<^verbatim>\<open>struct match\<close> are declared in headers
  outside the sources at hand; the records hold the members this file reads.
  \<open>tnl_rest\<close> stands for the remaining bytes of the tunnel structure, which the
  file only tests for zero as a whole. A \<^verbatim>\<open>struct match\<close> is its \<open>flow\<close> and the
  \<open>masks\<close> of its wildcards (\<^verbatim>\<open>match->wc.masks\<close>).
\<close>

record flow_tnl =
  ip_dst :: "32 word"
  ip_src :: "32 word"
  tun_id :: "64 word"
  flags :: "16 word"
  ip_tos :: "8 word"
  ip_ttl :: "8 word"
  tnl_tp_src :: "16 word"
  tnl_tp_dst :: "16 word"
  tnl_rest :: "8 word list"

record flow =
  tunnel :: flow_tnl
  metadata :: "64 word"
  skb_priority :: "32 word"
  pkt_mark :: "32 word"
  dp_hash :: "32 word"
  in_port :: odp_port_t
  recirc_id :: "32 word"
  ct_state :: "8 word"
  ct_nw_proto :: "8 word"
  ct_zone :: "16 word"
  ct_mark :: "32 word"
  ct_label :: "128 word"
  conj_id :: "32 word"
  actset_output :: "32 word"
  dl_dst :: "48 word"
  dl_src :: "48 word"
  dl_type :: "16 word"
  vlans0_tci :: "16 word"
  mpls_lse :: "32 word list"
  nw_src :: "32 word"
  nw_dst :: "32 word"
  ct_nw_src :: "32 word"
  ct_nw_dst :: "32 word"
  ipv6_src :: "128 word"
  ipv6_dst :: "128 word"
  ct_ipv6_src :: "128 word"
  ct_ipv6_dst :: "128 word"
  ipv6_label :: "32 word"
  nw_frag :: "8 word"
  nw_tos :: "8 word"
  nw_ttl :: "8 word"
  nw_proto :: "8 word"
  nd_target :: "128 word"
  arp_sha :: "48 word"
  arp_tha :: "48 word"
  tcp_flags :: "16 word"
  nsh :: "8 word list"
  tp_src :: "16 word"
  tp_dst :: "16 word"
  ct_tp_src :: "16 word"
  ct_tp_dst :: "16 word"
  igmp_group_ip4 :: "32 word"

record match =
  flow :: flow
  wc_masks :: flow

definition ETH_TYPE_IP :: "16 word" where "ETH_TYPE_IP = 0x0800"
definition VLAN_CFI :: "16 word" where "VLAN_CFI = 0x1000"
definition OVS_BE16_MAX :: "16 word" where "OVS_BE16_MAX = 0xffff"
definition IPPROTO_ICMP :: "8 word" where "IPPROTO_ICMP = 1"
definition IPPROTO_TCP :: "8 word" where "IPPROTO_TCP = 6"
definition IPPROTO_UDP :: "8 word" where "IPPROTO_UDP = 17"
definition IPPROTO_SCTP :: "8 word" where "IPPROTO_SCTP = 132"
definition CS_ESTABLISHED :: "8 word" where "CS_ESTABLISHED = 0x02"

subsection \<open>Pattern and action builders\<close>

text \<open>
  \<^verbatim>\<open>struct flow_patterns\<close> and \<^verbatim>\<open>struct flow_actions\<close>: the list is the used part of
  the array, so \<^verbatim>\<open>cnt\<close> is its length; \<open>current_max\<close> is the allocated size.
\<close>

record flow_patterns =
  items :: "rte_flow_item list"
  pat_current_max :: nat

record flow_actions =
  actions :: "rte_flow_action list"
  act_current_max :: nat

definition flow_patterns_init :: flow_patterns where
  "flow_patterns_init = \<lparr>items = [], pat_current_max = 0\<rparr>"

definition flow_actions_init :: flow_actions where
  "flow_actions_init = \<lparr>actions = [], act_current_max = 0\<rparr>"

definition free_flow_patterns :: "flow_patterns \<Rightarrow> flow_patterns" where
  "free_flow_patterns patterns = patterns\<lparr>items := []\<rparr>"

definition free_flow_actions :: "flow_actions \<Rightarrow> flow_actions" where
  "free_flow_actions acts = acts\<lparr>actions := []\<rparr>"

definition add_flow_pattern ::
  "flow_patterns \<Rightarrow> rte_flow_item_type \<Rightarrow> item_ptr option \<Rightarrow> item_ptr option \<Rightarrow> flow_patterns" where
  "add_flow_pattern patterns t spc msk =
     (let cnt = length (items patterns);
          cm = (if cnt = 0 then 8
                else if cnt = pat_current_max patterns then pat_current_max patterns * 2
                else pat_current_max patterns)
      in \<lparr>items = items patterns @ [\<lparr>item_type = t, item_spec = spc, item_mask = msk\<rparr>],
          pat_current_max = cm\<rparr>)"

definition add_flow_action ::
  "flow_actions \<Rightarrow> rte_flow_action_type \<Rightarrow> conf_ptr option \<Rightarrow> flow_actions" where
  "add_flow_action acts t conf =
     (let cnt = length (actions acts);
          cm = (if cnt = 0 then 8
                else if cnt = act_current_max acts then act_current_max acts * 2
                else act_current_max acts)
      in \<lparr>actions = actions acts @ [\<lparr>action_type = t, action_conf = conf\<rparr>],
          act_current_max = cm\<rparr>)"

text \<open>
  \<^verbatim>\<open>add_flow_patterns\<close>. \<open>sp\<close> and \<open>mp\<close> name the caller's \<^verbatim>\<open>spec\<close> and \<^verbatim>\<open>mask\<close>
  structures; the function clears both, fills them layer by layer and returns them
  with the status and the grown pattern array. A member is written after the item
  pointing to it was appended (the next-protocol mask of the IPv4 member is cleared
  once the transport item is in place).
\<close>

definition add_flow_patterns ::
  "flow_patterns \<Rightarrow> nat \<Rightarrow> nat \<Rightarrow> match
     \<Rightarrow> int \<times> flow_patterns \<times> flow_items \<times> flow_items" where
  "add_flow_patterns patterns sp mp m =
     (let f = flow m; w = wc_masks m;
          spec0 = flow_items_zero; mask0 = flow_items_zero;
          (patterns1, spec1, mask1) =
            (if dl_src w \<noteq> 0 \<or> dl_dst w \<noteq> 0 then
               (add_flow_pattern patterns RTE_FLOW_ITEM_TYPE_ETH
                  (Some (Item_ptr sp M_eth)) (Some (Item_ptr mp M_eth)),
                spec0\<lparr>fi_eth := \<lparr>eth_dst = dl_dst f, eth_src = dl_src f, eth_type = dl_type f\<rparr>\<rparr>,
                mask0\<lparr>fi_eth := \<lparr>eth_dst = dl_dst w, eth_src = dl_src w, eth_type = dl_type w\<rparr>\<rparr>)
             else (add_flow_pattern patterns RTE_FLOW_ITEM_TYPE_ETH None None, spec0, mask0));
          (patterns2, spec2, mask2) =
            (if vlans0_tci w \<noteq> 0 \<and> vlans0_tci f \<noteq> 0 then
               (add_flow_pattern patterns1 RTE_FLOW_ITEM_TYPE_VLAN
                  (Some (Item_ptr sp M_vlan)) (Some (Item_ptr mp M_vlan)),
                spec1\<lparr>fi_vlan := (fi_vlan spec1)\<lparr>vlan_tci := vlans0_tci f AND NOT VLAN_CFI\<rparr>\<rparr>,
                mask1\<lparr>fi_vlan := \<lparr>vlan_tci = vlans0_tci w AND NOT VLAN_CFI,
                                    vlan_inner_type = 0\<rparr>\<rparr>)
             else (patterns1, spec1, mask1));
          (patterns3, spec3, mask3, proto) =
            (if dl_type f = ETH_TYPE_IP then
               (add_flow_pattern patterns2 RTE_FLOW_ITEM_TYPE_IPV4
                  (Some (Item_ptr sp M_ipv4)) (Some (Item_ptr mp M_ipv4)),
                spec2\<lparr>fi_ipv4 := \<lparr>type_of_service = nw_tos f, time_to_live = nw_ttl f,
                                   next_proto_id = nw_proto f,
                                   src_addr = nw_src f, dst_addr = nw_dst f\<rparr>\<rparr>,
                mask2\<lparr>fi_ipv4 := \<lparr>type_of_service = nw_tos w, time_to_live = nw_ttl w,
                                   next_proto_id = nw_proto w,
                                   src_addr = nw_src w, dst_addr = nw_dst w\<rparr>\<rparr>,
                nw_proto f AND nw_proto w)
             else (patterns2, spec2, mask2, 0))
      in
        if proto \<noteq> IPPROTO_ICMP \<and> proto \<noteq> IPPROTO_UDP \<and>
           proto \<noteq> IPPROTO_SCTP \<and> proto \<noteq> IPPROTO_TCP \<and>
           (tp_src w \<noteq> 0 \<or> tp_dst w \<noteq> 0 \<or> tcp_flags w \<noteq> 0)
        then (- 1, patterns3, spec3, mask3)
        else if (tp_src w \<noteq> 0 \<and> tp_src w \<noteq> OVS_BE16_MAX) \<or>
                (tp_dst w \<noteq> 0 \<and> tp_dst w \<noteq> OVS_BE16_MAX)
        then (- 1, patterns3, spec3, mask3)
        else if proto = IPPROTO_TCP then
          (0,
           add_flow_pattern patterns3 RTE_FLOW_ITEM_TYPE_TCP
             (Some (Item_ptr sp M_tcp)) (Some (Item_ptr mp M_tcp)),
           spec3\<lparr>fi_tcp := \<lparr>tcp_src_port = tp_src f, tcp_dst_port = tp_dst f,
                             tcp_data_off = ucast (drop_bit 8 (tcp_flags f)),
                             tcp_tcp_flags = ucast (tcp_flags f AND 0xff)\<rparr>\<rparr>,
           mask3\<lparr>fi_tcp := \<lparr>tcp_src_port = tp_src w, tcp_dst_port = tp_dst w,
                             tcp_data_off = ucast (drop_bit 8 (tcp_flags w)),
                             tcp_tcp_flags = ucast (tcp_flags w AND 0xff)\<rparr>,
                  fi_ipv4 := (fi_ipv4 mask3)\<lparr>next_proto_id := 0\<rparr>\<rparr>)
        else if proto = IPPROTO_UDP then
          (0,
           add_flow_pattern patterns3 RTE_FLOW_ITEM_TYPE_UDP
             (Some (Item_ptr sp M_udp)) (Some (Item_ptr mp M_udp)),
           spec3\<lparr>fi_udp := \<lparr>udp_src_port = tp_src f, udp_dst_port = tp_dst f\<rparr>\<rparr>,
           mask3\<lparr>fi_udp := \<lparr>udp_src_port = tp_src w, udp_dst_port = tp_dst w\<rparr>,
                  fi_ipv4 := (fi_ipv4 mask3)\<lparr>next_proto_id := 0\<rparr>\<rparr>)
        else if proto = IPPROTO_SCTP then
          (0,
           add_flow_pattern patterns3 RTE_FLOW_ITEM_TYPE_SCTP
             (Some (Item_ptr sp M_sctp)) (Some (Item_ptr mp M_sctp)),
           spec3\<lparr>fi_sctp := \<lparr>sctp_src_port = tp_src f, sctp_dst_port = tp_dst f\<rparr>\<rparr>,
           mask3\<lparr>fi_sctp := \<lparr>sctp_src_port = tp_src w, sctp_dst_port = tp_dst w\<rparr>,
                  fi_ipv4 := (fi_ipv4 mask3)\<lparr>next_proto_id := 0\<rparr>\<rparr>)
        else if proto = IPPROTO_ICMP then
          (0,
           add_flow_pattern patterns3 RTE_FLOW_ITEM_TYPE_ICMP
             (Some (Item_ptr sp M_icmp)) (Some (Item_ptr mp M_icmp)),
           spec3\<lparr>fi_icmp := \<lparr>icmp_type = ucast (tp_src f), icmp_code = ucast (tp_dst f)\<rparr>\<rparr>,
           mask3\<lparr>fi_icmp := \<lparr>icmp_type = ucast (tp_src w), icmp_code = ucast (tp_dst w)\<rparr>,
                  fi_ipv4 := (fi_ipv4 mask3)\<lparr>next_proto_id := 0\<rparr>\<rparr>)
        else (0, patterns3, spec3, mask3))"

text \<open>The memory holding the caller's structures, by their numbers.\<close>

definition items_mem :: "flow_items list \<Rightarrow> nat \<Rightarrow> flow_items" where
  "items_mem fis n = (if n < length fis then fis ! n else flow_items_zero)"

text \<open>A match with every member zero, to build examples from.\<close>

definition flow_tnl_zero :: flow_tnl where
  "flow_tnl_zero =
     \<lparr>ip_dst = 0, ip_src = 0, tun_id = 0, flags = 0, ip_tos = 0, ip_ttl = 0,
      tnl_tp_src = 0, tnl_tp_dst = 0, tnl_rest = []\<rparr>"

definition flow_zero :: flow where
  "flow_zero =
     \<lparr>tunnel = flow_tnl_zero, metadata = 0, skb_priority = 0, pkt_mark = 0, dp_hash = 0,
      in_port = 0, recirc_id = 0, ct_state = 0, ct_nw_proto = 0, ct_zone = 0, ct_mark = 0,
      ct_label = 0, conj_id = 0, actset_output = 0, dl_dst = 0, dl_src = 0, dl_type = 0,
      vlans0_tci = 0, mpls_lse = [], nw_src = 0, nw_dst = 0, ct_nw_src = 0, ct_nw_dst = 0,
      ipv6_src = 0, ipv6_dst = 0, ct_ipv6_src = 0, ct_ipv6_dst = 0, ipv6_label = 0,
      nw_frag = 0, nw_tos = 0, nw_ttl = 0, nw_proto = 0, nd_target = 0, arp_sha = 0,
      arp_tha = 0, tcp_flags = 0, nsh = [], tp_src = 0, tp_dst = 0, ct_tp_src = 0,
      ct_tp_dst = 0, igmp_group_ip4 = 0\<rparr>"

text \<open>
  The records a caller can hold: one fresh from
  \<^verbatim>\<open>netdev_rte_port_ufid_hw_offload_alloc\<close> with capacity \<open>mf\<close>, or one that went
  through \<^verbatim>\<open>ufid_hw_offload_add_rte_flow\<close> any number of times.
\<close>

inductive hw_offload_reachable :: "int \<Rightarrow> ufid_hw_offload \<Rightarrow> bool" for mf :: int where
  reach_alloc: "hw_offload_reachable mf (netdev_rte_port_ufid_hw_offload_alloc mf u)"
| reach_add:
    "hw_offload_reachable mf h \<Longrightarrow>
     hw_offload_reachable mf (fst (ufid_hw_offload_add_rte_flow D h f nd tr))"

subsection \<open>Drivers used in the examples\<close>

text \<open>A driver that accepts everything and numbers its handles by the length of the trace.\<close>

definition drv_accept :: driver where
  "drv_accept =
     \<lparr>drv_flow_create = (\<lambda>tr nd attr its acts. Some (length tr + 1)),
      drv_flow_destroy = (\<lambda>tr nd f. 0),
      drv_is_uplink_port = (\<lambda>nd. True),
      drv_n_rxq = (\<lambda>nd. 1)\<rparr>"

text \<open>
  An IPv4/UDP match with exact transport ports, and the same match with a VLAN tag
  matched as well.
\<close>

definition match_udp :: match where
  "match_udp =
     \<lparr>flow = flow_zero\<lparr>dl_type := 0x0800, nw_proto := 17, tp_src := 53, tp_dst := 4789\<rparr>,
      wc_masks = flow_zero\<lparr>dl_type := 0xffff, nw_proto := 0xff,
                            tp_src := 0xffff, tp_dst := 0xffff\<rparr>\<rparr>"

definition match_udp_vlan :: match where
  "match_udp_vlan =
     \<lparr>flow = flow_zero\<lparr>dl_type := 0x0800, vlans0_tci := 0x1005, nw_proto := 17,
                        tp_src := 53, tp_dst := 4789\<rparr>,
      wc_masks = flow_zero\<lparr>dl_type := 0xffff, vlans0_tci := 0xffff, nw_proto := 0xff,
                            tp_src := 0xffff, tp_dst := 0xffff\<rparr>\<rparr>"

text \<open>A match on IP protocol 47 (GRE) that still masks the transport source port.\<close>

definition match_gre_port :: match where
  "match_gre_port =
     \<lparr>flow = flow_zero\<lparr>dl_type := 0x0800, nw_proto := 47, tp_src := 53\<rparr>,
      wc_masks = flow_zero\<lparr>dl_type := 0xffff, nw_proto := 0xff, tp_src := 0xffff\<rparr>\<rparr>"

subsection \<open>Ports and the global state\<close>

record netdev_rte_port =
  dp_port :: odp_port_t
  dpdk_port_id :: "16 word"
  netdev :: netdev
  rte_port_type :: rte_port_type
  table_id :: "32 word"
  dpdk_num_queues :: "16 word"
  exception_mark :: "32 word"
  ufid_to_rte :: "ufid_hw_offload list"
  default_rte_flow :: "rte_flow option list"

text \<open>
  The file-level variables \<^verbatim>\<open>port_map\<close>, \<^verbatim>\<open>dpdk_phy_ports_amount\<close> and
  \<^verbatim>\<open>ufid_to_portid_map\<close>, with the trace of driver calls.
\<close>

record offload_state =
  port_map :: "netdev_rte_port list"
  dpdk_phy_ports_amount :: "32 word"
  ufid_to_portid_map :: "ufid_to_odp list"
  drv_calls :: "drv_call list"

definition netdev_rte_port_search :: "odp_port_t \<Rightarrow> netdev_rte_port list \<Rightarrow> netdev_rte_port option" where
  "netdev_rte_port_search p m = find (\<lambda>d. p = dp_port d) m"

text \<open>A write through the pointer that \<^verbatim>\<open>netdev_rte_port_search\<close> returned for \<open>p\<close>.\<close>

definition rte_port_write ::
  "odp_port_t \<Rightarrow> (netdev_rte_port \<Rightarrow> netdev_rte_port) \<Rightarrow> offload_state \<Rightarrow> offload_state" where
  "rte_port_write p f s = s\<lparr>port_map := cmap_update (\<lambda>d. p = dp_port d) f (port_map s)\<rparr>"

record offload_info =
  flow_mark :: "32 word"
  is_hwol :: bool

subsection \<open>The software action list\<close>

text \<open>
  The netlink attributes of an action list, parsed. The attribute types are declared
  in a header outside the sources at hand; \<open>OVS_ACTION_ATTR_OTHER\<close> and
  \<open>OVS_CT_ATTR_OTHER\<close> stand for every type the file does not name. A tunnel push
  carries the header bytes and \<^verbatim>\<open>header_len\<close>. The pair of \<^verbatim>\<open>nl_actions\<close> and
  \<^verbatim>\<open>actions_len\<close> is an optional list: \<open>None\<close> is the NULL pointer and the empty
  list is a length of zero.
\<close>

datatype ovs_ct_attr =
  OVS_CT_ATTR_UNSPEC
  | OVS_CT_ATTR_COMMIT
  | OVS_CT_ATTR_ZONE "16 word"
  | OVS_CT_ATTR_MARK
  | OVS_CT_ATTR_LABELS
  | OVS_CT_ATTR_HELPER
  | OVS_CT_ATTR_NAT
  | OVS_CT_ATTR_FORCE_COMMIT
  | OVS_CT_ATTR_EVENTMASK
  | OVS_CT_ATTR_MAX
  | OVS_CT_ATTR_OTHER nat

datatype nlattr =
  OVS_ACTION_ATTR_OUTPUT odp_port_t
  | OVS_ACTION_ATTR_TUNNEL_PUSH "8 word list" nat
  | OVS_ACTION_ATTR_TUNNEL_POP odp_port_t
  | OVS_ACTION_ATTR_CLONE "nlattr list"
  | OVS_ACTION_ATTR_CT "ovs_ct_attr list"
  | OVS_ACTION_ATTR_RECIRC "32 word"
  | OVS_ACTION_ATTR_OTHER nat

definition nl_attrs :: "nlattr list option \<Rightarrow> nlattr list" where
  "nl_attrs nl_actions = (case nl_actions of None \<Rightarrow> [] | Some as \<Rightarrow> as)"

text \<open>
  \<^verbatim>\<open>action_bitmap\<close>: distinct attribute types set distinct bits, so the bitmap is
  the set of the attribute types whose bit is set.
\<close>

datatype action_bit =
  BIT_OUTPUT | BIT_TUNNEL_PUSH | BIT_TUNNEL_POP | BIT_CLONE | BIT_CT | BIT_RECIRC

subsection \<open>Validation\<close>

text \<open>
  Modelled from the spec: \<^verbatim>\<open>match_init\<close> belongs to \<^verbatim>\<open>lib/match.c\<close>, which is not
  among the sources at hand. As the comment at its call says, it creates "a
  wc-zeroed version of flow": the flow ANDed with the masks. Only the two members
  that the caller reads from the result are computed.
\<close>

definition flow_tnl_and :: "flow_tnl \<Rightarrow> flow_tnl \<Rightarrow> flow_tnl" where
  "flow_tnl_and t w =
     \<lparr>ip_dst = ip_dst t AND ip_dst w, ip_src = ip_src t AND ip_src w,
      tun_id = tun_id t AND tun_id w, flags = flags t AND flags w,
      ip_tos = ip_tos t AND ip_tos w, ip_ttl = ip_ttl t AND ip_ttl w,
      tnl_tp_src = tnl_tp_src t AND tnl_tp_src w, tnl_tp_dst = tnl_tp_dst t AND tnl_tp_dst w,
      tnl_rest = map2 (AND) (tnl_rest t) (tnl_rest w)\<rparr>"

definition match_init :: "flow \<Rightarrow> flow \<Rightarrow> match" where
  "match_init f w =
     \<lparr>flow = f\<lparr>tunnel := flow_tnl_and (tunnel f) (tunnel w), nw_frag := nw_frag f AND nw_frag w\<rparr>,
      wc_masks = w\<rparr>"

definition flow_tnl_is_all_zeros :: "flow_tnl \<Rightarrow> bool" where
  "flow_tnl_is_all_zeros t \<longleftrightarrow>
     ip_dst t = 0 \<and> ip_src t = 0 \<and> tun_id t = 0 \<and> flags t = 0 \<and> ip_tos t = 0 \<and> ip_ttl t = 0 \<and>
     tnl_tp_src t = 0 \<and> tnl_tp_dst t = 0 \<and> list_all (\<lambda>b. b = 0) (tnl_rest t)"

definition netdev_rte_offloads_validate_flow :: "match \<Rightarrow> bool \<Rightarrow> int" where
  "netdev_rte_offloads_validate_flow m is_tun =
     (let masks = wc_masks m;
          match_zero_wc = match_init (flow m) (wc_masks m)
      in
        if \<not> is_tun \<and> \<not> flow_tnl_is_all_zeros (tunnel (flow match_zero_wc)) then - 1
        else if metadata masks \<noteq> 0 \<or> skb_priority masks \<noteq> 0 \<or>
                pkt_mark masks \<noteq> 0 \<or> dp_hash masks \<noteq> 0 then - 1
        else if (ct_state masks \<noteq> 0 \<and> ct_state masks AND CS_ESTABLISHED = 0) \<or>
                ct_nw_proto masks \<noteq> 0 \<or> ct_zone masks \<noteq> 0 \<or> ct_mark masks \<noteq> 0 \<or>
                ct_label masks \<noteq> 0 then - 1
        else if conj_id masks \<noteq> 0 \<or> actset_output masks \<noteq> 0 then - 1
        else if \<not> list_all (\<lambda>l. l = 0) (mpls_lse masks) then - 1
        else if ipv6_label masks \<noteq> 0 \<or> ct_nw_src masks \<noteq> 0 \<or> ct_nw_dst masks \<noteq> 0 \<or>
                ipv6_src masks \<noteq> 0 \<or> ipv6_dst masks \<noteq> 0 \<or>
                ct_ipv6_src masks \<noteq> 0 \<or> ct_ipv6_dst masks \<noteq> 0 \<or>
                nd_target masks \<noteq> 0 \<or> \<not> list_all (\<lambda>b. b = 0) (nsh masks) \<or>
                arp_sha masks \<noteq> 0 \<or> arp_tha masks \<noteq> 0 then - 1
        else if nw_frag (flow match_zero_wc) \<noteq> 0 then - 1
        else if igmp_group_ip4 masks \<noteq> 0 \<or> ct_tp_src masks \<noteq> 0 \<or> ct_tp_dst masks \<noteq> 0 then - 1
        else 0)"

subsection \<open>Action translation\<close>

definition add_flow_rss_action ::
  "flow_actions \<Rightarrow> action_confs \<Rightarrow> 16 word \<Rightarrow> flow_actions \<times> action_confs" where
  "add_flow_rss_action acts confs num_queues =
     (add_flow_action acts RTE_FLOW_ACTION_TYPE_RSS (Some P_rss),
      confs\<lparr>c_rss := \<lparr>rss_queue_num = num_queues,
                       rss_queue = map word_of_nat [0 ..< unat num_queues]\<rparr>\<rparr>)"

definition netdev_rte_add_jump_flow_action ::
  "netdev_rte_port list \<Rightarrow> odp_port_t \<Rightarrow> action_confs \<Rightarrow> flow_actions
     \<Rightarrow> netdev_rte_port option \<times> action_confs \<times> flow_actions" where
  "netdev_rte_add_jump_flow_action pm odp_port confs acts =
     (case netdev_rte_port_search odp_port pm of
        None \<Rightarrow> (None, confs, acts)
      | Some rte_port \<Rightarrow>
          (Some rte_port, confs\<lparr>c_jump := table_id rte_port\<rparr>,
           add_flow_action acts RTE_FLOW_ACTION_TYPE_JUMP (Some P_jump)))"

text \<open>
  \<^verbatim>\<open>netdev_rte_add_count_flow_action\<close> and \<^verbatim>\<open>get_output_port\<close> write the structure
  they are handed; \<open>clone\<close> tells whether it is the one of the clone branch.
\<close>

definition netdev_rte_add_count_flow_action ::
  "bool \<Rightarrow> action_confs \<Rightarrow> flow_actions \<Rightarrow> action_confs \<times> flow_actions" where
  "netdev_rte_add_count_flow_action clone confs acts =
     (if clone then
        (confs\<lparr>c_clone_count := \<lparr>count_shared = 0, count_id = 0\<rparr>\<rparr>,
         add_flow_action acts RTE_FLOW_ACTION_TYPE_COUNT (Some P_clone_count))
      else
        (confs\<lparr>c_count := \<lparr>count_shared = 0, count_id = 0\<rparr>\<rparr>,
         add_flow_action acts RTE_FLOW_ACTION_TYPE_COUNT (Some P_count)))"

definition netdev_rte_add_port_id_flow_action :: "bool \<Rightarrow> flow_actions \<Rightarrow> flow_actions" where
  "netdev_rte_add_port_id_flow_action clone acts =
     add_flow_action acts RTE_FLOW_ACTION_TYPE_PORT_ID
       (Some (if clone then P_clone_output else P_output))"

definition get_output_port ::
  "netdev_rte_port list \<Rightarrow> odp_port_t \<Rightarrow> bool \<Rightarrow> action_confs \<Rightarrow> int \<times> action_confs" where
  "get_output_port pm odp_port clone confs =
     (case netdev_rte_port_search odp_port pm of
        None \<Rightarrow> (EINVAL, confs)
      | Some output_rte_port \<Rightarrow>
          (0,
           if clone then
             confs\<lparr>c_clone_output :=
                     \<lparr>port_id_original = 0, port_id_id = ucast (dpdk_port_id output_rte_port)\<rparr>\<rparr>
           else
             confs\<lparr>c_output :=
                     \<lparr>port_id_original = 0, port_id_id = ucast (dpdk_port_id output_rte_port)\<rparr>\<rparr>))"

definition netdev_rte_add_raw_encap_flow_action ::
  "8 word list \<Rightarrow> nat \<Rightarrow> action_confs \<Rightarrow> flow_actions \<Rightarrow> action_confs \<times> flow_actions" where
  "netdev_rte_add_raw_encap_flow_action header header_len confs acts =
     (confs\<lparr>c_clone_raw_encap := \<lparr>encap_data = header, encap_size = header_len\<rparr>\<rparr>,
      add_flow_action acts RTE_FLOW_ACTION_TYPE_RAW_ENCAP (Some P_clone_raw_encap))"

text \<open>
  \<^verbatim>\<open>netdev_rte_add_clone_flow_action\<close>: the loop over the nested attributes stops at
  the first output whose port is unknown.
\<close>

fun netdev_rte_add_clone_flow_action ::
  "netdev_rte_port list \<Rightarrow> nlattr list \<Rightarrow> action_confs \<Rightarrow> flow_actions
     \<Rightarrow> int \<times> action_confs \<times> flow_actions" where
  "netdev_rte_add_clone_flow_action pm [] confs acts = (0, confs, acts)"
| "netdev_rte_add_clone_flow_action pm (OVS_ACTION_ATTR_TUNNEL_PUSH hdr len # cas) confs acts =
     (let (confs', acts') = netdev_rte_add_raw_encap_flow_action hdr len confs acts
      in netdev_rte_add_clone_flow_action pm cas confs' acts')"
| "netdev_rte_add_clone_flow_action pm (OVS_ACTION_ATTR_OUTPUT p # cas) confs acts =
     (let (result, confs1) = get_output_port pm p True confs
      in if result \<noteq> 0 then (result, confs1, acts)
         else
           (let (confs2, acts2) = netdev_rte_add_count_flow_action True confs1 acts;
                acts3 = netdev_rte_add_port_id_flow_action True acts2
            in case netdev_rte_add_clone_flow_action pm cas confs2 acts3 of
                 (r, confs', acts') \<Rightarrow> (r, confs', acts')))"
| "netdev_rte_add_clone_flow_action pm (_ # cas) confs acts =
     netdev_rte_add_clone_flow_action pm cas confs acts"

text \<open>
  \<^verbatim>\<open>netdev_rte_offload_mark_rss\<close>: mark, RSS over the receive queues of the device,
  an optional port id, END, then the driver. \<open>mem\<close> is the memory that the items point
  into.
\<close>

definition netdev_rte_offload_mark_rss ::
  "driver \<Rightarrow> netdev \<Rightarrow> offload_info \<Rightarrow> (nat \<Rightarrow> flow_items) \<Rightarrow> flow_patterns \<Rightarrow> flow_actions
     \<Rightarrow> action_confs \<Rightarrow> bool \<Rightarrow> rte_flow_attr \<Rightarrow> drv_call list
     \<Rightarrow> rte_flow option \<times> flow_actions \<times> drv_call list" where
  "netdev_rte_offload_mark_rss D nd info mem patterns acts confs port_id flow_attr tr =
     (let confs1 = confs\<lparr>c_mark := flow_mark info\<rparr>;
          acts1 = add_flow_action acts RTE_FLOW_ACTION_TYPE_MARK (Some P_mark);
          (acts2, confs2) = add_flow_rss_action acts1 confs1 (word_of_int (drv_n_rxq D nd));
          acts3 = (if port_id then netdev_rte_add_port_id_flow_action False acts2 else acts2);
          acts4 = add_flow_action acts3 RTE_FLOW_ACTION_TYPE_END None;
          (fl, tr') = netdev_dpdk_rte_flow_create D nd flow_attr
                        (map (deref_item mem) (items patterns))
                        (map (deref_action confs2) (actions acts4)) tr
      in (fl, acts4, tr'))"

definition netdev_rte_offload_flow ::
  "driver \<Rightarrow> netdev \<Rightarrow> offload_info \<Rightarrow> (nat \<Rightarrow> flow_items) \<Rightarrow> flow_patterns \<Rightarrow> flow_actions
     \<Rightarrow> action_confs \<Rightarrow> rte_flow_attr \<Rightarrow> drv_call list
     \<Rightarrow> rte_flow option \<times> offload_info \<times> flow_actions \<times> drv_call list" where
  "netdev_rte_offload_flow D nd info mem patterns acts confs flow_attr tr =
     (let acts1 = add_flow_action acts RTE_FLOW_ACTION_TYPE_END None;
          (fl, tr') = netdev_dpdk_rte_flow_create D nd flow_attr
                        (map (deref_item mem) (items patterns))
                        (map (deref_action confs) (actions acts1)) tr
      in (fl, info\<lparr>is_hwol := (fl \<noteq> None)\<rparr>, acts1, tr'))"

text \<open>
  \<^verbatim>\<open>netdev_rte_offload_add_default_flow\<close>: the catch-all flow of the table of
  \<open>vport\<close> on the device of \<open>rte_port\<close>: lowest priority, no pattern, RSS and the
  exception mark of the virtual port.
\<close>

definition netdev_rte_offload_add_default_flow ::
  "driver \<Rightarrow> netdev_rte_port \<Rightarrow> netdev_rte_port \<Rightarrow> drv_call list
     \<Rightarrow> rte_flow option \<times> drv_call list" where
  "netdev_rte_offload_add_default_flow D rte_port vport tr =
     (let def_flow_attr = \<lparr>attr_group = table_id vport, attr_priority = 1, attr_ingress = True,
                            attr_egress = False, attr_transfer = False\<rparr>;
          def_patterns = add_flow_pattern flow_patterns_init RTE_FLOW_ITEM_TYPE_END None None;
          (def_actions1, confs1) =
             add_flow_rss_action flow_actions_init action_confs_zero (dpdk_num_queues rte_port);
          confs2 = confs1\<lparr>c_mark := exception_mark vport\<rparr>;
          def_actions2 = add_flow_action def_actions1 RTE_FLOW_ACTION_TYPE_MARK (Some P_mark);
          def_actions3 = add_flow_action def_actions2 RTE_FLOW_ACTION_TYPE_END None
      in netdev_dpdk_rte_flow_create D (netdev rte_port) def_flow_attr
           (map (deref_item (items_mem [])) (items def_patterns))
           (map (deref_action confs2) (actions def_actions3)) tr)"

definition netdev_dpdk_add_jump_to_non_root_table ::
  "driver \<Rightarrow> netdev \<Rightarrow> offload_info \<Rightarrow> drv_call list
     \<Rightarrow> rte_flow option \<times> offload_info \<times> drv_call list" where
  "netdev_dpdk_add_jump_to_non_root_table D nd info tr =
     (let flow_attr = \<lparr>attr_group = 0, attr_priority = 1, attr_ingress = True,
                        attr_egress = False, attr_transfer = True\<rparr>;
          patterns = add_flow_pattern flow_patterns_init RTE_FLOW_ITEM_TYPE_END None None;
          confs = action_confs_zero\<lparr>c_jump := 1\<rparr>;
          acts = add_flow_action flow_actions_init RTE_FLOW_ACTION_TYPE_JUMP (Some P_jump);
          (fl, info', acts', tr') =
             netdev_rte_offload_flow D nd info (items_mem []) patterns acts confs flow_attr tr
      in (fl, info', tr'))"

subsection \<open>Adding a flow on a physical port\<close>

text \<open>
  The locals of \<^verbatim>\<open>netdev_rte_offloads_add_flow\<close> that its loop over the action
  list changes.
\<close>

record add_flow_locals =
  af_result :: int
  af_vport :: "netdev_rte_port option"
  af_bitmap :: "action_bit set"
  af_confs :: action_confs
  af_actions :: flow_actions

text \<open>The loop over \<^verbatim>\<open>nl_actions\<close>; a \<^verbatim>\<open>break\<close> returns the locals as they are.\<close>

fun add_flow_action_loop ::
  "netdev_rte_port list \<Rightarrow> nlattr list \<Rightarrow> add_flow_locals \<Rightarrow> add_flow_locals" where
  "add_flow_action_loop pm [] l = l"
| "add_flow_action_loop pm (OVS_ACTION_ATTR_TUNNEL_POP p # as) l =
     (case netdev_rte_add_jump_flow_action pm p (af_confs l) (af_actions l) of
        (None, confs', acts') \<Rightarrow> l\<lparr>af_vport := None, af_result := - 1\<rparr>
      | (Some vp, confs', acts') \<Rightarrow>
          (let (confs2, acts2) = netdev_rte_add_count_flow_action False confs' acts'
           in add_flow_action_loop pm as
                (l\<lparr>af_vport := Some vp, af_confs := confs2, af_actions := acts2,
                   af_bitmap := insert BIT_TUNNEL_POP (af_bitmap l), af_result := 0\<rparr>)))"
| "add_flow_action_loop pm (OVS_ACTION_ATTR_OUTPUT p # as) l =
     (let (result, confs1) = get_output_port pm p False (af_confs l)
      in if result \<noteq> 0 then l\<lparr>af_result := result, af_confs := confs1\<rparr>
         else
           (let (confs2, acts2) = netdev_rte_add_count_flow_action False confs1 (af_actions l);
                acts3 = netdev_rte_add_port_id_flow_action False acts2
            in add_flow_action_loop pm as
                 (l\<lparr>af_result := result, af_confs := confs2, af_actions := acts3,
                    af_bitmap := insert BIT_OUTPUT (af_bitmap l)\<rparr>)))"
| "add_flow_action_loop pm (OVS_ACTION_ATTR_CLONE cas # as) l =
     (case netdev_rte_add_clone_flow_action pm cas (af_confs l) (af_actions l) of
        (result, confs', acts') \<Rightarrow>
          if result \<noteq> 0 then l\<lparr>af_result := result, af_confs := confs', af_actions := acts'\<rparr>
          else add_flow_action_loop pm as
                 (l\<lparr>af_result := result, af_confs := confs', af_actions := acts',
                    af_bitmap := insert BIT_CLONE (af_bitmap l)\<rparr>))"
| "add_flow_action_loop pm (_ # as) l = l\<lparr>af_result := - 1\<rparr>"

text \<open>
  \<^verbatim>\<open>netdev_rte_offloads_add_flow\<close>. The result is \<open>None\<close> where the C code has no
  defined behaviour: the ingress port is read through a NULL pointer, or the table
  id of the virtual port indexes \<^verbatim>\<open>default_rte_flow\<close> out of bounds. When the
  default flow of a tunnel pop cannot be created, the function leaves through
  \<^verbatim>\<open>goto out\<close> with the flow it has just installed; the destroy call that follows
  that jump in the source is never reached.
\<close>

definition netdev_rte_offloads_add_flow ::
  "driver \<Rightarrow> offload_state \<Rightarrow> netdev \<Rightarrow> match \<Rightarrow> nlattr list option \<Rightarrow> ovs_u128 \<Rightarrow> offload_info
     \<Rightarrow> (rte_flow option \<times> offload_info \<times> offload_state) option" where
  "netdev_rte_offloads_add_flow D s nd m nl_actions u info =
     (let flow_attr = \<lparr>attr_group = 0, attr_priority = 0, attr_ingress = True,
                        attr_egress = False, attr_transfer = False\<rparr>;
          (result0, patterns0, spec, msk) = add_flow_patterns flow_patterns_init 0 1 m
      in
        if result0 \<noteq> 0 then Some (None, info, s)
        else
          (let patterns = add_flow_pattern patterns0 RTE_FLOW_ITEM_TYPE_END None None;
               mem = items_mem [spec, msk];
               l = add_flow_action_loop (port_map s) (nl_attrs nl_actions)
                     \<lparr>af_result = 0, af_vport = None, af_bitmap = {},
                      af_confs = action_confs_zero, af_actions = flow_actions_init\<rparr>
           in
             if af_result l \<noteq> 0 then
               (let (fl, acts', tr') =
                      netdev_rte_offload_mark_rss D nd info mem patterns (af_actions l)
                        (af_confs l) False (flow_attr\<lparr>attr_transfer := False\<rparr>) (drv_calls s)
                in Some (fl, info, s\<lparr>drv_calls := tr'\<rparr>))
             else
               (let (jump_ok, info1, tr1, flow_attr1) =
                      (if BIT_CLONE \<in> af_bitmap l then
                         (let (fl, info', tr') =
                                netdev_dpdk_add_jump_to_non_root_table D nd info (drv_calls s)
                          in (fl \<noteq> None, info', tr', flow_attr\<lparr>attr_group := 1\<rparr>))
                       else (True, info, drv_calls s, flow_attr))
                in
                  if \<not> jump_ok then Some (None, info1, s\<lparr>drv_calls := tr1\<rparr>)
                  else
                    (let (fl, info2, acts', tr2) =
                           netdev_rte_offload_flow D nd info1 mem patterns (af_actions l)
                             (af_confs l) (flow_attr1\<lparr>attr_transfer := True\<rparr>) tr1;
                         s2 = s\<lparr>drv_calls := tr2\<rparr>
                     in
                       case fl of
                         None \<Rightarrow> Some (None, info2, s2)
                       | Some f \<Rightarrow>
                           if BIT_TUNNEL_POP \<in> af_bitmap l then
                             (case (netdev_rte_port_search (in_port (flow m)) (port_map s),
                                    af_vport l) of
                                (Some rte_port, Some vport) \<Rightarrow>
                                  if unat (table_id vport) < RTE_FLOW_MAX_TABLES \<and>
                                     unat (table_id vport) < length (default_rte_flow rte_port)
                                  then
                                    (if default_rte_flow rte_port ! unat (table_id vport) = None
                                     then
                                       (let (def_flow, tr3) =
                                              netdev_rte_offload_add_default_flow D rte_port
                                                vport tr2;
                                            s3 = rte_port_write (in_port (flow m))
                                                   (\<lambda>p. p\<lparr>default_rte_flow :=
                                                            (default_rte_flow p)
                                                              [unat (table_id vport) := def_flow]\<rparr>)
                                                   (s\<lparr>drv_calls := tr3\<rparr>)
                                        in Some (Some f, info2, s3))
                                     else Some (Some f, info2, s2))
                                  else None
                              | _ \<Rightarrow> None)
                           else Some (Some f, info2, s2)))))"

subsection \<open>Flow put and flow delete\<close>

text \<open>
  \<^verbatim>\<open>netdev_rte_offloads_flow_put\<close>. The identity record allocated here is the node
  that a search for the ufid in the map of the ingress port finds afterwards, so the
  final \<^verbatim>\<open>ufid_hw_offload_add_rte_flow\<close> through the local pointer is a write to
  that node.
\<close>

definition netdev_rte_offloads_flow_put ::
  "driver \<Rightarrow> offload_state \<Rightarrow> netdev \<Rightarrow> match \<Rightarrow> nlattr list option \<Rightarrow> ovs_u128 \<Rightarrow> offload_info
     \<Rightarrow> (int \<times> offload_info \<times> offload_state) option" where
  "netdev_rte_offloads_flow_put D s nd m nl_actions u info =
     (let inp = in_port (flow m) in
      case netdev_rte_port_search inp (port_map s) of
        None \<Rightarrow> Some (EINVAL, info, s)
      | Some rte_port \<Rightarrow>
          (let (ret, s1) =
                 (case ufid_hw_offload_find u (ufid_to_rte rte_port) of
                    None \<Rightarrow> (0, s)
                  | Some old \<Rightarrow>
                      (let sr = rte_port_write inp
                                  (\<lambda>p. p\<lparr>ufid_to_rte := snd (ufid_hw_offload_remove u (ufid_to_rte p))\<rparr>) s;
                           (r, tr') = netdev_rte_port_ufid_hw_offload_free D old (drv_calls sr)
                       in (r, sr\<lparr>drv_calls := tr'\<rparr>)))
           in
             if ret < 0 then Some (- ret, info, s1)
             else
               (let ufid_hw_offload = netdev_rte_port_ufid_hw_offload_alloc 1 u;
                    s2 = rte_port_write inp
                           (\<lambda>p. p\<lparr>ufid_to_rte := ufid_hw_offload_add ufid_hw_offload (ufid_to_rte p)\<rparr>) s1;
                    s3 = s2\<lparr>ufid_to_portid_map :=
                              snd (ufid_to_portid_add (ufid_to_portid_map s2) u (dp_port rte_port))\<rparr>
                in
                  if netdev_rte_offloads_validate_flow m False < 0 then Some (EINVAL, info, s3)
                  else
                    (case netdev_rte_offloads_add_flow D s3 nd m nl_actions u info of
                       None \<Rightarrow> None
                     | Some (None, info', s4) \<Rightarrow> Some (ENODEV, info', s4)
                     | Some (Some rte_flow, info', s4) \<Rightarrow>
                         (let (h', tr') = ufid_hw_offload_add_rte_flow D ufid_hw_offload
                                            rte_flow nd (drv_calls s4);
                              s5 = rte_port_write inp
                                     (\<lambda>p. p\<lparr>ufid_to_rte :=
                                              cmap_update (\<lambda>d. u = ufid d) (\<lambda>d. h')
                                                (ufid_to_rte p)\<rparr>)
                                     (s4\<lparr>drv_calls := tr'\<rparr>)
                          in Some (0, info', s5))))))"

text \<open>\<^verbatim>\<open>netdev_offloads_flow_del\<close>, behind both flow delete entry points.\<close>

definition netdev_offloads_flow_del :: "driver \<Rightarrow> offload_state \<Rightarrow> ovs_u128 \<Rightarrow> int \<times> offload_state" where
  "netdev_offloads_flow_del D s u =
     (let port_num = ufid_to_portid_search (ufid_to_portid_map s) u in
      if port_num = INVALID_ODP_PORT then (EINVAL, s)
      else
        (case netdev_rte_port_search port_num (port_map s) of
           None \<Rightarrow> (ENODEV, s)
         | Some rte_port \<Rightarrow>
             (let s1 = s\<lparr>ufid_to_portid_map := ufid_to_portid_remove (ufid_to_portid_map s) u\<rparr>;
                  (removed, m') = ufid_hw_offload_remove u (ufid_to_rte rte_port);
                  s2 = rte_port_write port_num (\<lambda>p. p\<lparr>ufid_to_rte := m'\<rparr>) s1
              in case removed of
                   None \<Rightarrow> (0, s2)
                 | Some h \<Rightarrow>
                     (0, s2\<lparr>drv_calls :=
                              snd (netdev_rte_port_ufid_hw_offload_free D h (drv_calls s2))\<rparr>))))"

subsection \<open>Flows on a VXLAN virtual port\<close>

text \<open>
  \<^verbatim>\<open>add_vport_vxlan_flow_patterns\<close>: the outer IPv4, UDP and VXLAN items. The three
  VNI bytes are bytes 1 to 3 of the upper half of the stored tunnel id; on a
  little-endian host these are the low 24 bits of the tunnel id, most significant
  byte first.
\<close>

definition add_vport_vxlan_flow_patterns ::
  "flow_patterns \<Rightarrow> nat \<Rightarrow> nat \<Rightarrow> match
     \<Rightarrow> int \<times> flow_patterns \<times> flow_items \<times> flow_items" where
  "add_vport_vxlan_flow_patterns patterns sp mp m =
     (let f = flow m; w = wc_masks m;
          spec0 = flow_items_zero; mask0 = flow_items_zero
      in
        if dl_type f = ETH_TYPE_IP then
          (let spec1 = spec0\<lparr>fi_ipv4 :=
                         \<lparr>type_of_service = ip_tos (tunnel f), time_to_live = ip_ttl (tunnel f),
                          next_proto_id = IPPROTO_UDP,
                          src_addr = ip_src (tunnel f), dst_addr = ip_dst (tunnel f)\<rparr>\<rparr>;
               mask1 = mask0\<lparr>fi_ipv4 :=
                         \<lparr>type_of_service = ip_tos (tunnel w), time_to_live = ip_ttl (tunnel w),
                          next_proto_id = 0xff,
                          src_addr = ip_src (tunnel w), dst_addr = ip_dst (tunnel w)\<rparr>\<rparr>;
               patterns1 = add_flow_pattern patterns RTE_FLOW_ITEM_TYPE_IPV4
                             (Some (Item_ptr sp M_ipv4)) (Some (Item_ptr mp M_ipv4));
               proto = next_proto_id (fi_ipv4 spec1) AND next_proto_id (fi_ipv4 mask1)
           in
             if proto = IPPROTO_UDP then
               (let spec2 = spec1\<lparr>fi_udp := \<lparr>udp_src_port = tnl_tp_src (tunnel f),
                                              udp_dst_port = tnl_tp_dst (tunnel f)\<rparr>\<rparr>;
                    mask2 = mask1\<lparr>fi_udp := \<lparr>udp_src_port = tp_src w, udp_dst_port = tp_dst w\<rparr>\<rparr>;
                    patterns2 = add_flow_pattern patterns1 RTE_FLOW_ITEM_TYPE_UDP
                                  (Some (Item_ptr sp M_udp)) (Some (Item_ptr mp M_udp));
                    spec3 = spec2\<lparr>fi_vxlan :=
                              \<lparr>vxlan_flags = ucast (flags (tunnel f)),
                               vxlan_vni = [ucast (drop_bit 16 (tun_id (tunnel f))),
                                            ucast (drop_bit 8 (tun_id (tunnel f))),
                                            ucast (tun_id (tunnel f))]\<rparr>\<rparr>;
                    mask3 = mask2\<lparr>fi_vxlan :=
                              (fi_vxlan mask2)
                                \<lparr>vxlan_vni := [ucast (drop_bit 16 (tun_id (tunnel w))),
                                               ucast (drop_bit 8 (tun_id (tunnel w))),
                                               ucast (tun_id (tunnel w))]\<rparr>\<rparr>
                in (0,
                    add_flow_pattern patterns2 RTE_FLOW_ITEM_TYPE_VXLAN
                      (Some (Item_ptr sp M_vxlan)) (Some (Item_ptr mp M_vxlan)),
                    spec3, mask3))
             else (- 1, patterns1, spec1, mask1))
        else (- 1, patterns, spec0, mask0))"

definition netdev_rte_add_decap_flow_action :: "flow_actions \<Rightarrow> flow_actions" where
  "netdev_rte_add_decap_flow_action acts =
     add_flow_action acts RTE_FLOW_ACTION_TYPE_VXLAN_DECAP None"

text \<open>
  The loop over the attributes nested in a conntrack action: a zone other than 0
  leaves through \<^verbatim>\<open>goto out\<close> with \<^verbatim>\<open>EOPNOTSUPP\<close>, and \<^verbatim>\<open>OVS_NOT_REACHED\<close> aborts
  the process.
\<close>

datatype ct_loop_result = Ct_ok | Ct_out int | Ct_abort

fun vxlan_ct_loop :: "ovs_ct_attr list \<Rightarrow> ct_loop_result" where
  "vxlan_ct_loop [] = Ct_ok"
| "vxlan_ct_loop (OVS_CT_ATTR_ZONE zone # bs) =
     (if zone \<noteq> 0 then Ct_out EOPNOTSUPP else vxlan_ct_loop bs)"
| "vxlan_ct_loop (OVS_CT_ATTR_UNSPEC # bs) = Ct_abort"
| "vxlan_ct_loop (OVS_CT_ATTR_MAX # bs) = Ct_abort"
| "vxlan_ct_loop (_ # bs) = vxlan_ct_loop bs"

text \<open>
  The loop of \<^verbatim>\<open>netdev_vport_vxlan_add_rte_flow_offload\<close> over \<^verbatim>\<open>nl_actions\<close>. An
  output whose port is unknown leaves its error in \<open>ret\<close> and goes on with the next
  attribute. The locals \<^verbatim>\<open>port_id\<close> and \<^verbatim>\<open>count\<close> are the \<open>c_output\<close> and \<open>c_count\<close>
  members of the configurations.
\<close>

datatype vxlan_loop_result =
  Vx_done int "action_bit set" action_confs
  | Vx_out int
  | Vx_abort

fun vxlan_action_loop ::
  "netdev_rte_port list \<Rightarrow> nlattr list \<Rightarrow> int \<Rightarrow> action_bit set \<Rightarrow> action_confs
     \<Rightarrow> vxlan_loop_result" where
  "vxlan_action_loop pm [] ret bitmap confs = Vx_done ret bitmap confs"
| "vxlan_action_loop pm (OVS_ACTION_ATTR_OUTPUT p # as) ret bitmap confs =
     (let (r, confs') = get_output_port pm p False confs
      in if r \<noteq> 0 then vxlan_action_loop pm as r bitmap confs'
         else vxlan_action_loop pm as r (insert BIT_OUTPUT bitmap) confs')"
| "vxlan_action_loop pm (OVS_ACTION_ATTR_CT cts # as) ret bitmap confs =
     (case vxlan_ct_loop cts of
        Ct_abort \<Rightarrow> Vx_abort
      | Ct_out r \<Rightarrow> Vx_out r
      | Ct_ok \<Rightarrow> vxlan_action_loop pm as ret (insert BIT_CT bitmap) confs)"
| "vxlan_action_loop pm (OVS_ACTION_ATTR_RECIRC rid # as) ret bitmap confs =
     (if BIT_CT \<notin> bitmap then Vx_out EOPNOTSUPP
      else vxlan_action_loop pm as ret (insert BIT_RECIRC bitmap) confs)"
| "vxlan_action_loop pm (_ # as) ret bitmap confs = Vx_out EOPNOTSUPP"

text \<open>
  What the fan-out loop carries from one port of \<^verbatim>\<open>port_map\<close> to the next: the
  identity record (written through the local pointer), \<^verbatim>\<open>info\<close>, the action array
  and the configurations, the flow attributes and the trace.
\<close>

record fanout_locals =
  fo_hw_offload :: ufid_hw_offload
  fo_info :: offload_info
  fo_actions :: flow_actions
  fo_confs :: action_confs
  fo_attr :: rte_flow_attr
  fo_calls :: "drv_call list"

text \<open>
  One turn of the loop for the port \<open>data\<close>: nothing for a port that is not a DPDK
  uplink; otherwise the decap form (with count and port id when there was an output
  action), on failure the decap form with mark and RSS, and the handle added to the
  identity record if either was accepted. The handle is recorded with the device of
  the virtual port (\<open>vnd\<close>).
\<close>

definition vxlan_fanout_step ::
  "driver \<Rightarrow> netdev \<Rightarrow> (nat \<Rightarrow> flow_items) \<Rightarrow> flow_patterns \<Rightarrow> action_bit set
     \<Rightarrow> netdev_rte_port \<Rightarrow> fanout_locals \<Rightarrow> fanout_locals" where
  "vxlan_fanout_step D vnd mem patterns bitmap data l =
     (if rte_port_type data = RTE_PORT_TYPE_DPDK \<and> drv_is_uplink_port D (netdev data) then
        (let acts1 = netdev_rte_add_decap_flow_action (free_flow_actions (fo_actions l));
             (confs1, acts2) =
                (if BIT_OUTPUT \<in> bitmap then
                   (let (c, a) = netdev_rte_add_count_flow_action False (fo_confs l) acts1
                    in (c, netdev_rte_add_port_id_flow_action False a))
                 else (fo_confs l, acts1));
             acts3 = add_flow_action acts2 RTE_FLOW_ACTION_TYPE_END None;
             attr1 = (fo_attr l)\<lparr>attr_transfer := True\<rparr>;
             (fl, tr1) = netdev_dpdk_rte_flow_create D (netdev data) attr1
                           (map (deref_item mem) (items patterns))
                           (map (deref_action confs1) (actions acts3)) (fo_calls l);
             (fl2, info2, acts4, attr2, tr2) =
                (case fl of
                   Some f \<Rightarrow> (Some f, (fo_info l)\<lparr>is_hwol := True\<rparr>, acts3, attr1, tr1)
                 | None \<Rightarrow>
                     (let acts5 = netdev_rte_add_decap_flow_action (free_flow_actions acts3);
                          attr3 = attr1\<lparr>attr_transfer := False\<rparr>;
                          (fl', acts6, tr') =
                             netdev_rte_offload_mark_rss D (netdev data) (fo_info l) mem patterns
                               acts5 confs1 False attr3 tr1
                      in (fl',
                          if fl' \<noteq> None then (fo_info l)\<lparr>is_hwol := False\<rparr> else fo_info l,
                          acts6, attr3, tr')));
             (h', tr3) =
                (case fl2 of
                   Some f \<Rightarrow> ufid_hw_offload_add_rte_flow D (fo_hw_offload l) f vnd tr2
                 | None \<Rightarrow> (fo_hw_offload l, tr2))
         in \<lparr>fo_hw_offload = h', fo_info = info2, fo_actions = acts4, fo_confs = confs1,
             fo_attr = attr2, fo_calls = tr3\<rparr>)
      else l)"

fun vxlan_fanout ::
  "driver \<Rightarrow> netdev \<Rightarrow> (nat \<Rightarrow> flow_items) \<Rightarrow> flow_patterns \<Rightarrow> action_bit set
     \<Rightarrow> netdev_rte_port list \<Rightarrow> fanout_locals \<Rightarrow> fanout_locals" where
  "vxlan_fanout D vnd mem patterns bitmap [] l = l"
| "vxlan_fanout D vnd mem patterns bitmap (data # ports) l =
     vxlan_fanout D vnd mem patterns bitmap ports
       (vxlan_fanout_step D vnd mem patterns bitmap data l)"

text \<open>
  \<^verbatim>\<open>netdev_vport_vxlan_add_rte_flow_offload\<close>. \<open>rte_port\<close> is the node of the virtual
  port in \<^verbatim>\<open>port_map\<close>; a write through that pointer is a write to the node with its
  port number. The capacity of the new identity record is \<^verbatim>\<open>dpdk_phy_ports_amount\<close>
  converted to \<^verbatim>\<open>int\<close>. \<open>None\<close> is the abort of \<^verbatim>\<open>OVS_NOT_REACHED\<close>.
\<close>

definition netdev_vport_vxlan_add_rte_flow_offload ::
  "driver \<Rightarrow> offload_state \<Rightarrow> netdev_rte_port \<Rightarrow> match \<Rightarrow> nlattr list option \<Rightarrow> ovs_u128
     \<Rightarrow> offload_info \<Rightarrow> (int \<times> offload_info \<times> offload_state) option" where
  "netdev_vport_vxlan_add_rte_flow_offload D s rte_port m nl_actions u info =
     (if nl_actions = None \<or> nl_actions = Some [] then Some (0, info, s)
      else
        (let vp = dp_port rte_port;
             (ret0, s1) =
               (case ufid_hw_offload_find u (ufid_to_rte rte_port) of
                  None \<Rightarrow> (0, s)
                | Some old \<Rightarrow>
                    (let sr = rte_port_write vp
                                (\<lambda>p. p\<lparr>ufid_to_rte := snd (ufid_hw_offload_remove u (ufid_to_rte p))\<rparr>) s;
                         (r, tr') = netdev_rte_port_ufid_hw_offload_free D old (drv_calls sr)
                     in (r, sr\<lparr>drv_calls := tr'\<rparr>)))
         in
           if ret0 < 0 then Some (ret0, info, s1)
           else if dpdk_phy_ports_amount s1 = 0 then Some (- 1, info, s1)
           else
             (let ufid_hw_offload =
                    netdev_rte_port_ufid_hw_offload_alloc (sint (dpdk_phy_ports_amount s1)) u;
                  s2 = rte_port_write vp
                         (\<lambda>p. p\<lparr>ufid_to_rte := ufid_hw_offload_add ufid_hw_offload (ufid_to_rte p)\<rparr>) s1;
                  s3 = s2\<lparr>ufid_to_portid_map :=
                            snd (ufid_to_portid_add (ufid_to_portid_map s2) u (dp_port rte_port))\<rparr>;
                  flow_attr = \<lparr>attr_group = table_id rte_port, attr_priority = 0,
                               attr_ingress = True, attr_egress = False, attr_transfer = False\<rparr>;
                  (ret1, patterns1, spec_outer, mask_outer) =
                     add_vport_vxlan_flow_patterns flow_patterns_init 0 1 m
              in
                if ret1 \<noteq> 0 then Some (ret1, info, s3)
                else
                  (let (ret2, patterns2, spec, msk) = add_flow_patterns patterns1 2 3 m
                   in
                     if ret2 \<noteq> 0 then Some (ret2, info, s3)
                     else
                       (let patterns = add_flow_pattern patterns2 RTE_FLOW_ITEM_TYPE_END None None;
                            mem = items_mem [spec_outer, mask_outer, spec, msk]
                        in
                          case vxlan_action_loop (port_map s3) (nl_attrs nl_actions) ret2 {}
                                 action_confs_zero of
                            Vx_abort \<Rightarrow> None
                          | Vx_out r \<Rightarrow> Some (r, info, s3)
                          | Vx_done ret bitmap confs \<Rightarrow>
                              (let l = vxlan_fanout D (netdev rte_port) mem patterns bitmap
                                         (port_map s3)
                                         \<lparr>fo_hw_offload = ufid_hw_offload, fo_info = info,
                                          fo_actions = flow_actions_init, fo_confs = confs,
                                          fo_attr = flow_attr, fo_calls = drv_calls s3\<rparr>;
                                   s4 = rte_port_write vp
                                          (\<lambda>p. p\<lparr>ufid_to_rte :=
                                                   cmap_update (\<lambda>d. u = ufid d)
                                                     (\<lambda>d. fo_hw_offload l) (ufid_to_rte p)\<rparr>)
                                          (s3\<lparr>drv_calls := fo_calls l\<rparr>)
                               in Some (ret, fo_info l, s4)))))))"

definition netdev_rte_vport_flow_put ::
  "driver \<Rightarrow> offload_state \<Rightarrow> netdev \<Rightarrow> match \<Rightarrow> nlattr list option \<Rightarrow> ovs_u128 \<Rightarrow> offload_info
     \<Rightarrow> (int \<times> offload_info \<times> offload_state) option" where
  "netdev_rte_vport_flow_put D s nd m nl_actions u info =
     (if netdev_rte_offloads_validate_flow m True \<noteq> 0 then Some (EOPNOTSUPP, info, s)
      else
        (case netdev_rte_port_search (in_port (flow m)) (port_map s) of
           None \<Rightarrow> Some (0, info, s)
         | Some rte_port \<Rightarrow>
             if rte_port_type rte_port = RTE_PORT_TYPE_VXLAN then
               netdev_vport_vxlan_add_rte_flow_offload D s rte_port m nl_actions u info
             else Some (0, info, s)))"

subsection \<open>Tunnel outer ids\<close>

text \<open>
  Modelled from the spec: the id pool (\<^verbatim>\<open>lib/id-pool.c\<close> is not among the sources at
  hand), a "fixed-range integer-id allocator" with \<open>allocate(poolRange) -> id |
  EXHAUSTED\<close> and \<open>release(id)\<close>. A pool is its range, \<open>pool_n_ids\<close> ids from
  \<open>pool_base\<close> on, and the ids handed out; allocation returns the first id of the
  range that is not handed out, or nothing when there is none.
\<close>

record id_pool =
  pool_base :: "32 word"
  pool_n_ids :: "32 word"
  pool_used :: "32 word list"

definition id_pool_create :: "32 word \<Rightarrow> 32 word \<Rightarrow> id_pool" where
  "id_pool_create base n_ids = \<lparr>pool_base = base, pool_n_ids = n_ids, pool_used = []\<rparr>"

fun id_pool_search :: "32 word list \<Rightarrow> 32 word \<Rightarrow> nat \<Rightarrow> 32 word option" where
  "id_pool_search used i 0 = None"
| "id_pool_search used i (Suc n) =
     (if i \<notin> set used then Some i else id_pool_search used (i + 1) n)"

definition id_pool_alloc_id :: "id_pool \<Rightarrow> (32 word \<times> id_pool) option" where
  "id_pool_alloc_id p =
     (case id_pool_search (pool_used p) (pool_base p) (unat (pool_n_ids p)) of
        None \<Rightarrow> None
      | Some i \<Rightarrow> Some (i, p\<lparr>pool_used := i # pool_used p\<rparr>))"

definition id_pool_free_id :: "id_pool \<Rightarrow> 32 word \<Rightarrow> id_pool" where
  "id_pool_free_id p i = p\<lparr>pool_used := removeAll i (pool_used p)\<rparr>"

definition INVALID_OUTER_ID :: "32 word" where "INVALID_OUTER_ID = 0xffffffff"
definition MAX_OUTER_ID :: "32 word" where "MAX_OUTER_ID = 0xffff"

record tun_ctx_outer_id_data =
  outer_id :: "32 word"
  td_ip_dst :: "32 word"
  td_ip_src :: "32 word"
  td_tun_id :: "64 word"
  ref_count :: int

text \<open>The file-level variable \<^verbatim>\<open>tun_ctx_outer_id\<close>; its pool is created on first use.\<close>

record tun_ctx_outer_id =
  outer_id_to_tun_map :: "tun_ctx_outer_id_data list"
  tun_to_outer_id_map :: "tun_ctx_outer_id_data list"
  pool :: "id_pool option"

definition tun_ctx_outer_id_init :: tun_ctx_outer_id where
  "tun_ctx_outer_id_init =
     \<lparr>outer_id_to_tun_map = [], tun_to_outer_id_map = [], pool = None\<rparr>"

text \<open>The key test of the loops over \<^verbatim>\<open>tun_to_outer_id_map\<close>.\<close>

definition tun_key_eq ::
  "32 word \<Rightarrow> 32 word \<Rightarrow> 64 word \<Rightarrow> tun_ctx_outer_id_data \<Rightarrow> bool" where
  "tun_key_eq dst src tid d \<longleftrightarrow> td_tun_id d = tid \<and> td_ip_dst d = dst \<and> td_ip_src d = src"

definition netdev_dpdk_tun_data_find ::
  "tun_ctx_outer_id \<Rightarrow> 32 word \<Rightarrow> tun_ctx_outer_id_data option" where
  "netdev_dpdk_tun_data_find c oid = find (\<lambda>d. outer_id d = oid) (outer_id_to_tun_map c)"

definition netdev_dpdk_tun_data_del :: "tun_ctx_outer_id \<Rightarrow> 32 word \<Rightarrow> tun_ctx_outer_id" where
  "netdev_dpdk_tun_data_del c oid =
     c\<lparr>outer_id_to_tun_map := cmap_remove (\<lambda>d. outer_id d = oid) (outer_id_to_tun_map c)\<rparr>"

definition netdev_dpdk_tun_data_insert ::
  "tun_ctx_outer_id \<Rightarrow> 32 word \<Rightarrow> 32 word \<Rightarrow> 32 word \<Rightarrow> 64 word \<Rightarrow> tun_ctx_outer_id" where
  "netdev_dpdk_tun_data_insert c oid dst src tid =
     c\<lparr>outer_id_to_tun_map :=
         cmap_insert \<lparr>outer_id = oid, td_ip_dst = dst, td_ip_src = src, td_tun_id = tid,
                      ref_count = 0\<rparr>
           (outer_id_to_tun_map c)\<rparr>"

definition netdev_dpdk_tun_outer_id_get_ref ::
  "tun_ctx_outer_id \<Rightarrow> 32 word \<Rightarrow> 32 word \<Rightarrow> 64 word \<Rightarrow> 32 word \<times> tun_ctx_outer_id" where
  "netdev_dpdk_tun_outer_id_get_ref c dst src tid =
     (case find (tun_key_eq dst src tid) (tun_to_outer_id_map c) of
        Some d \<Rightarrow>
          (outer_id d,
           c\<lparr>tun_to_outer_id_map :=
               cmap_update (tun_key_eq dst src tid) (\<lambda>d. d\<lparr>ref_count := ref_count d + 1\<rparr>)
                 (tun_to_outer_id_map c)\<rparr>)
      | None \<Rightarrow> (INVALID_OUTER_ID, c))"

definition netdev_dpdk_tun_outer_id_alloc ::
  "tun_ctx_outer_id \<Rightarrow> 32 word \<Rightarrow> 32 word \<Rightarrow> 64 word \<Rightarrow> 32 word \<times> tun_ctx_outer_id" where
  "netdev_dpdk_tun_outer_id_alloc c dst src tid =
     (let p = (case pool c of None \<Rightarrow> id_pool_create 1 MAX_OUTER_ID | Some p \<Rightarrow> p)
      in case id_pool_alloc_id p of
           None \<Rightarrow> (INVALID_OUTER_ID, c\<lparr>pool := Some p\<rparr>)
         | Some (oid, p') \<Rightarrow>
             (oid,
              netdev_dpdk_tun_data_insert
                (c\<lparr>pool := Some p',
                   tun_to_outer_id_map :=
                     cmap_insert \<lparr>outer_id = oid, td_ip_dst = dst, td_ip_src = src,
                                  td_tun_id = tid, ref_count = 1\<rparr>
                       (tun_to_outer_id_map c)\<rparr>)
                oid dst src tid))"

text \<open>
  \<^verbatim>\<open>netdev_dpdk_tun_outer_id_unref\<close>. Releasing the id reads the pool; \<open>None\<close> is the
  read through a pool pointer that is still NULL.
\<close>

definition netdev_dpdk_tun_outer_id_unref ::
  "tun_ctx_outer_id \<Rightarrow> 32 word \<Rightarrow> 32 word \<Rightarrow> 64 word \<Rightarrow> tun_ctx_outer_id option" where
  "netdev_dpdk_tun_outer_id_unref c dst src tid =
     (case find (tun_key_eq dst src tid) (tun_to_outer_id_map c) of
        None \<Rightarrow> Some c
      | Some d \<Rightarrow>
          if ref_count d - 1 = 0 then
            (let c1 = netdev_dpdk_tun_data_del c (outer_id d);
                 c2 = c1\<lparr>tun_to_outer_id_map :=
                          cmap_remove (tun_key_eq dst src tid) (tun_to_outer_id_map c1)\<rparr>
             in case pool c2 of
                  None \<Rightarrow> None
                | Some p \<Rightarrow> Some (c2\<lparr>pool := Some (id_pool_free_id p (outer_id d))\<rparr>))
          else
            Some (c\<lparr>tun_to_outer_id_map :=
                      cmap_update (tun_key_eq dst src tid)
                        (\<lambda>d. d\<lparr>ref_count := ref_count d - 1\<rparr>) (tun_to_outer_id_map c)\<rparr>))"

definition netdev_dpdk_tun_id_get_ref ::
  "tun_ctx_outer_id \<Rightarrow> 32 word \<Rightarrow> 32 word \<Rightarrow> 64 word \<Rightarrow> 32 word \<times> tun_ctx_outer_id" where
  "netdev_dpdk_tun_id_get_ref c dst src tid =
     (let (oid, c') = netdev_dpdk_tun_outer_id_get_ref c dst src tid
      in if oid = INVALID_OUTER_ID then netdev_dpdk_tun_outer_id_alloc c' dst src tid
         else (oid, c'))"

definition netdev_dpdk_tun_id_unref ::
  "tun_ctx_outer_id \<Rightarrow> 32 word \<Rightarrow> 32 word \<Rightarrow> 64 word \<Rightarrow> tun_ctx_outer_id option" where
  "netdev_dpdk_tun_id_unref c dst src tid = netdev_dpdk_tun_outer_id_unref c dst src tid"

subsection \<open>The miss-context store\<close>

definition MARK_PREPROCESS_CT :: int where "MARK_PREPROCESS_CT = 1"

text \<open>
  \<^verbatim>\<open>struct mark_to_miss_ctx_data\<close> with the conntrack member of its union; the two
  arrays have \<^verbatim>\<open>CT_OFFLOAD_NUM\<close> = 2 elements.
\<close>

record mark_to_miss_ctx_data =
  mc_mark :: "32 word"
  mc_type :: int
  mc_ct_mark :: "32 word"
  mc_ct_zone :: "16 word"
  mc_ct_state :: "8 word"
  mc_outer_id :: "16 word"
  mc_in_port :: "16 word list"
  mc_rte_flow :: "rte_flow option list"

definition mark_to_miss_ctx_data_zero :: mark_to_miss_ctx_data where
  "mark_to_miss_ctx_data_zero =
     \<lparr>mc_mark = 0, mc_type = 0, mc_ct_mark = 0, mc_ct_zone = 0, mc_ct_state = 0,
      mc_outer_id = 0, mc_in_port = [0, 0], mc_rte_flow = [None, None]\<rparr>"

text \<open>
  The file has two maps of this name: the file-level variable \<^verbatim>\<open>mark_to_ct_ctx\<close> and
  the member \<^verbatim>\<open>mark_preprocess_info.mark_to_ct_ctx\<close>. Lookups and the search of the
  delete walk the member; insertion and removal name the file-level variable.
\<close>

record miss_ctx_state =
  mark_to_ct_ctx :: "mark_to_miss_ctx_data list"
  info_mark_to_ct_ctx :: "mark_to_miss_ctx_data list"

definition miss_ctx_state_init :: miss_ctx_state where
  "miss_ctx_state_init = \<lparr>mark_to_ct_ctx = [], info_mark_to_ct_ctx = []\<rparr>"

definition netdev_dpdk_find_miss_ctx :: "32 word \<Rightarrow> miss_ctx_state \<Rightarrow> mark_to_miss_ctx_data option" where
  "netdev_dpdk_find_miss_ctx mark s = find (\<lambda>d. mc_mark d = mark) (info_mark_to_ct_ctx s)"

text \<open>
  \<^verbatim>\<open>netdev_dpdk_get_flow_miss_ctx\<close> returns a pointer: to the node that the lookup
  found in the member map, or to a zeroed node that it has just inserted into the
  file-level map. The pointer comes with the contents of the node.
\<close>

datatype miss_ctx_ptr = Found_node | New_node

definition netdev_dpdk_get_flow_miss_ctx ::
  "32 word \<Rightarrow> miss_ctx_state \<Rightarrow> miss_ctx_ptr \<times> mark_to_miss_ctx_data \<times> miss_ctx_state" where
  "netdev_dpdk_get_flow_miss_ctx mark s =
     (case netdev_dpdk_find_miss_ctx mark s of
        Some d \<Rightarrow> (Found_node, d, s)
      | None \<Rightarrow>
          (New_node, mark_to_miss_ctx_data_zero,
           s\<lparr>mark_to_ct_ctx := cmap_insert mark_to_miss_ctx_data_zero (mark_to_ct_ctx s)\<rparr>))"

text \<open>
  A write through that pointer: to the node just inserted, which is the first of the
  file-level map, or to the node the lookup found.
\<close>

definition miss_ctx_write ::
  "32 word \<Rightarrow> miss_ctx_ptr \<Rightarrow> mark_to_miss_ctx_data \<Rightarrow> miss_ctx_state \<Rightarrow> miss_ctx_state" where
  "miss_ctx_write mark p v s =
     (case p of
        New_node \<Rightarrow> s\<lparr>mark_to_ct_ctx := v # tl (mark_to_ct_ctx s)\<rparr>
      | Found_node \<Rightarrow>
          s\<lparr>info_mark_to_ct_ctx :=
              cmap_update (\<lambda>d. mc_mark d = mark) (\<lambda>d. v) (info_mark_to_ct_ctx s)\<rparr>)"

text \<open>
  \<^verbatim>\<open>netdev_dpdk_save_ct_miss_ctx\<close>; the outer id arrives as a \<^verbatim>\<open>uint8_t\<close>. The fields
  are written before the handle slot of the direction is examined.
\<close>

definition netdev_dpdk_save_ct_miss_ctx ::
  "32 word \<Rightarrow> rte_flow option \<Rightarrow> 32 word \<Rightarrow> 16 word \<Rightarrow> 8 word \<Rightarrow> 8 word \<Rightarrow> bool
     \<Rightarrow> miss_ctx_state \<Rightarrow> int \<times> miss_ctx_state" where
  "netdev_dpdk_save_ct_miss_ctx mark fl ct_mark' ct_zone' ct_state' outer_id' reply s =
     (let (p, d, s1) = netdev_dpdk_get_flow_miss_ctx mark s;
          d1 = d\<lparr>mc_type := MARK_PREPROCESS_CT, mc_mark := mark, mc_ct_mark := ct_mark',
                 mc_ct_zone := ct_zone', mc_ct_state := ct_state', mc_outer_id := ucast outer_id'\<rparr>;
          idx = (if reply then 1 else 0)
      in if mc_rte_flow d1 ! idx \<noteq> None then (- 1, miss_ctx_write mark p d1 s1)
         else (0, miss_ctx_write mark p (d1\<lparr>mc_rte_flow := (mc_rte_flow d1)[idx := fl]\<rparr>) s1))"

text \<open>
  \<^verbatim>\<open>netdev_dpdk_del_miss_ctx\<close>: the node is searched in the member map and removed
  from the file-level map. \<open>None\<close> is the removal of a node from a map that does not
  hold it.
\<close>

definition netdev_dpdk_del_miss_ctx :: "32 word \<Rightarrow> miss_ctx_state \<Rightarrow> miss_ctx_state option" where
  "netdev_dpdk_del_miss_ctx mark s =
     (case find (\<lambda>d. mc_mark d = mark) (info_mark_to_ct_ctx s) of
        None \<Rightarrow> Some s
      | Some d \<Rightarrow> None)"

subsection \<open>Reading the trace and the registry\<close>

text \<open>
  Vocabulary for the properties: which trace entries are creations, which handle a
  destroy entry gave back, which handle a creation returned, and the handles a
  record holds (the elements below \<open>curr_idx\<close> with a handle, each with the device
  it was recorded with; these are the ones
  \<^verbatim>\<open>netdev_rte_port_ufid_hw_offload_free\<close> destroys).
\<close>

fun is_create :: "drv_call \<Rightarrow> bool" where
  "is_create (Flow_create nd attr its acts r) = True"
| "is_create (Flow_destroy nd f r) = False"

fun destroy_target :: "drv_call \<Rightarrow> (netdev \<times> rte_flow) option" where
  "destroy_target (Flow_create nd attr its acts r) = None"
| "destroy_target (Flow_destroy nd f r) = Some (nd, f)"

fun create_result :: "drv_call \<Rightarrow> rte_flow option" where
  "create_result (Flow_create nd attr its acts r) = r"
| "create_result (Flow_destroy nd f r) = None"

definition hw_offload_handles :: "ufid_hw_offload \<Rightarrow> (netdev \<times> rte_flow) list" where
  "hw_offload_handles h =
     List.map_filter (\<lambda>p. map_option (\<lambda>f. (rfp_netdev p, f)) (rfp_flow p))
       (take (nat (curr_idx h)) (rte_flow_data h))"

text \<open>
  \<open>created_in tr tr' fl\<close>: the trace \<open>tr'\<close> is \<open>tr\<close> followed by creations only, and
  the handle \<open>fl\<close>, if there is one, was returned by one of them.
\<close>

definition created_in :: "drv_call list \<Rightarrow> drv_call list \<Rightarrow> rte_flow option \<Rightarrow> bool" where
  "created_in tr tr' fl \<longleftrightarrow>
     (\<exists>es. tr' = tr @ es \<and> list_all is_create es \<and>
           (fl = None \<or> fl \<in> set (map create_result es)))"

subsection \<open>More ways to read the trace\<close>

fun create_netdev :: "drv_call \<Rightarrow> netdev option" where
  "create_netdev (Flow_create nd attr its acts r) = Some nd"
| "create_netdev (Flow_destroy nd f r) = None"

fun create_attr :: "drv_call \<Rightarrow> rte_flow_attr option" where
  "create_attr (Flow_create nd attr its acts r) = Some attr"
| "create_attr (Flow_destroy nd f r) = None"

fun create_action_types :: "drv_call \<Rightarrow> rte_flow_action_type list" where
  "create_action_types (Flow_create nd attr its acts r) = map aval_type acts"
| "create_action_types (Flow_destroy nd f r) = []"

text \<open>
  The flows that a trace leaves installed in the hardware: every handle that a
  creation returned and that no later destroy accepted by the driver (answer 0) gave
  back, in the order of creation.
\<close>

fun live_flows_step :: "rte_flow list \<Rightarrow> drv_call \<Rightarrow> rte_flow list" where
  "live_flows_step fs (Flow_create nd attr its acts None) = fs"
| "live_flows_step fs (Flow_create nd attr its acts (Some f)) = fs @ [f]"
| "live_flows_step fs (Flow_destroy nd f r) = (if r = 0 then remove1 f fs else fs)"

definition live_flows :: "drv_call list \<Rightarrow> rte_flow list" where
  "live_flows tr = foldl live_flows_step [] tr"

subsection \<open>States, matches and drivers used in the examples\<close>

definition port_phys :: netdev_rte_port where
  "port_phys =
     \<lparr>dp_port = 1, dpdk_port_id = 0, netdev = 10, rte_port_type = RTE_PORT_TYPE_DPDK,
      table_id = 0, dpdk_num_queues = 2, exception_mark = 0, ufid_to_rte = [],
      default_rte_flow = replicate 31 None\<rparr>"

definition port_vxlan :: netdev_rte_port where
  "port_vxlan =
     \<lparr>dp_port = 2, dpdk_port_id = 0, netdev = 20, rte_port_type = RTE_PORT_TYPE_VXLAN,
      table_id = VXLAN_TABLE_ID, dpdk_num_queues = 0, exception_mark = 7, ufid_to_rte = [],
      default_rte_flow = replicate 31 None\<rparr>"

definition hw_offload_old :: ufid_hw_offload where
  "hw_offload_old =
     \<lparr>ufid = 5, max_flows = 1, curr_idx = 1,
      rte_flow_data = [\<lparr>rfp_flow = Some 77, rfp_netdev = 10\<rparr>]\<rparr>"

text \<open>One physical and one VXLAN port, nothing offloaded.\<close>

definition state_two_ports :: offload_state where
  "state_two_ports =
     \<lparr>port_map = [port_phys, port_vxlan], dpdk_phy_ports_amount = 1,
      ufid_to_portid_map = [], drv_calls = []\<rparr>"

text \<open>The same ports, with ufid 5 offloaded on the physical port as handle 77.\<close>

definition state_with_offload :: offload_state where
  "state_with_offload =
     \<lparr>port_map = [port_phys\<lparr>ufid_to_rte := [hw_offload_old]\<rparr>, port_vxlan],
      dpdk_phy_ports_amount = 1,
      ufid_to_portid_map = [\<lparr>uo_ufid = 5, uo_dp_port = 1\<rparr>],
      drv_calls = []\<rparr>"

text \<open>Three uplinks (devices 11, 12 and 13) and a VXLAN port (device 20).\<close>

definition state_three_uplinks :: offload_state where
  "state_three_uplinks =
     \<lparr>port_map =
        [port_phys\<lparr>dp_port := 1, netdev := 11\<rparr>, port_phys\<lparr>dp_port := 2, netdev := 12\<rparr>,
         port_phys\<lparr>dp_port := 3, netdev := 13\<rparr>, port_vxlan\<lparr>dp_port := 4\<rparr>],
      dpdk_phy_ports_amount = 3, ufid_to_portid_map = [], drv_calls = []\<rparr>"

text \<open>A match on the ingress port 1 alone, and an IPv4 match arriving on port 4.\<close>

definition match_in1 :: match where
  "match_in1 = \<lparr>flow = flow_zero\<lparr>in_port := 1\<rparr>, wc_masks = flow_zero\<rparr>"

definition match_vxlan_in4 :: match where
  "match_vxlan_in4 =
     \<lparr>flow = flow_zero\<lparr>in_port := 4, dl_type := 0x0800\<rparr>,
      wc_masks = flow_zero\<lparr>dl_type := 0xffff\<rparr>\<rparr>"

text \<open>
  A VXLAN port that holds an offload for ufid 5, and two matches arriving on it: one
  that matches nothing else, and one that also matches the packet mark, which
  \<^verbatim>\<open>netdev_rte_offloads_validate_flow\<close> refuses.
\<close>

definition state_vxlan_offload :: offload_state where
  "state_vxlan_offload =
     \<lparr>port_map =
        [port_phys,
         port_vxlan\<lparr>ufid_to_rte :=
                      [\<lparr>ufid = 5, max_flows = 1, curr_idx = 1,
                        rte_flow_data = [\<lparr>rfp_flow = Some 77, rfp_netdev = 20\<rparr>]\<rparr>]\<rparr>],
      dpdk_phy_ports_amount = 1,
      ufid_to_portid_map = [\<lparr>uo_ufid = 5, uo_dp_port = 2\<rparr>],
      drv_calls = []\<rparr>"

definition match_in2 :: match where
  "match_in2 = \<lparr>flow = flow_zero\<lparr>in_port := 2\<rparr>, wc_masks = flow_zero\<rparr>"

definition match_in2_mark :: match where
  "match_in2_mark =
     \<lparr>flow = flow_zero\<lparr>in_port := 2, pkt_mark := 1\<rparr>,
      wc_masks = flow_zero\<lparr>pkt_mark := 0xffffffff\<rparr>\<rparr>"

definition info0 :: offload_info where
  "info0 = \<lparr>flow_mark = 3, is_hwol = False\<rparr>"

text \<open>
  A driver that rejects every flow of priority 1 (the default flows) and accepts the
  others, and a driver that rejects every flow on device 12.
\<close>

definition drv_no_default :: driver where
  "drv_no_default =
     \<lparr>drv_flow_create =
        (\<lambda>tr nd attr its acts. if attr_priority attr = 1 then None else Some (length tr + 1)),
      drv_flow_destroy = (\<lambda>tr nd f. 0),
      drv_is_uplink_port = (\<lambda>nd. True),
      drv_n_rxq = (\<lambda>nd. 1)\<rparr>"

definition drv_fail_12 :: driver where
  "drv_fail_12 =
     \<lparr>drv_flow_create =
        (\<lambda>tr nd attr its acts. if nd = 12 then None else Some (length tr + 1)),
      drv_flow_destroy = (\<lambda>tr nd f. 0),
      drv_is_uplink_port = (\<lambda>nd. True),
      drv_n_rxq = (\<lambda>nd. 1)\<rparr>"

subsection \<open>Reading a fan-out off the trace\<close>

text \<open>The devices of the DPDK uplink ports of \<^verbatim>\<open>port_map\<close>, in iteration order.\<close>

definition uplink_netdevs :: "driver \<Rightarrow> netdev_rte_port list \<Rightarrow> netdev list" where
  "uplink_netdevs D pm =
     map netdev
       (filter (\<lambda>d. rte_port_type d = RTE_PORT_TYPE_DPDK \<and> drv_is_uplink_port D (netdev d)) pm)"



section \<open>Properties\<close>

subsection \<open>Flow identity records\<close>

lemma hw_offload_reachable_inv:
  assumes "hw_offload_reachable mf h" and "0 \<le> mf"
  shows "max_flows h = mf \<and> 0 \<le> curr_idx h \<and> curr_idx h \<le> max_flows h
         \<and> length (rte_flow_data h) = nat mf"
  using assms
proof (induction rule: hw_offload_reachable.induct)
  case (reach_alloc u)
  then show ?case by (simp add: netdev_rte_port_ufid_hw_offload_alloc_def)
next
  case (reach_add h D f nd tr)
  then show ?case by (simp add: ufid_hw_offload_add_rte_flow_def)
qed

lemma add_rte_flow_full:
  "max_flows h \<le> curr_idx h \<Longrightarrow>
   ufid_hw_offload_add_rte_flow D h f nd tr
     = (h, tr @ [Flow_destroy nd f (drv_flow_destroy D tr nd f)])"
  by (simp add: ufid_hw_offload_add_rte_flow_def netdev_dpdk_rte_flow_destroy_def Let_def)

text \<open>
  Claim C8. A flow identity record created with a capacity \<open>mf \<ge> 0\<close> keeps that
  capacity, and its fill count \<open>curr_idx\<close> never exceeds it, whatever handles are
  added afterwards. Adding a handle to a record whose fill count equals the capacity
  leaves the record as it is and hands the handle to the driver's flow destroy at
  once: the trace grows by exactly that destroy call.
\<close>

theorem hw_offload_fill_bounded_overflow_destroyed:
  assumes "hw_offload_reachable mf h" and "0 \<le> mf"
  shows "max_flows h = mf \<and> curr_idx h \<le> max_flows h
         \<and> (curr_idx h = max_flows h \<longrightarrow>
              ufid_hw_offload_add_rte_flow D h f nd tr
                = (h, tr @ [Flow_destroy nd f (drv_flow_destroy D tr nd f)]))"
  using hw_offload_reachable_inv [OF assms] add_rte_flow_full [of h D f nd tr] by simp

theorem hw_offload_fill_bounded_overflow_destroyed_witness:
  "hw_offload_reachable 1
     (fst (ufid_hw_offload_add_rte_flow drv_accept
             (netdev_rte_port_ufid_hw_offload_alloc 1 5) 7 3 []))
   \<and> (0::int) \<le> 1
   \<and> curr_idx (fst (ufid_hw_offload_add_rte_flow drv_accept
                      (netdev_rte_port_ufid_hw_offload_alloc 1 5) 7 3 [])) = 1
   \<and> ufid_hw_offload_add_rte_flow drv_accept
        (fst (ufid_hw_offload_add_rte_flow drv_accept
                (netdev_rte_port_ufid_hw_offload_alloc 1 5) 7 3 [])) 8 3 []
      = (\<lparr>ufid = 5, max_flows = 1, curr_idx = 1,
           rte_flow_data = [\<lparr>rfp_flow = Some 7, rfp_netdev = 3\<rparr>]\<rparr>,
         [Flow_destroy 3 8 0])"
proof -
  let ?h = "fst (ufid_hw_offload_add_rte_flow drv_accept
                   (netdev_rte_port_ufid_hw_offload_alloc 1 5) 7 3 [])"
  have r: "hw_offload_reachable 1 ?h"
    by (rule reach_add [OF reach_alloc])
  have h: "?h = \<lparr>ufid = 5, max_flows = 1, curr_idx = 1,
                 rte_flow_data = [\<lparr>rfp_flow = Some 7, rfp_netdev = 3\<rparr>]\<rparr>"
    by (simp add: ufid_hw_offload_add_rte_flow_def netdev_rte_port_ufid_hw_offload_alloc_def)
  from hw_offload_fill_bounded_overflow_destroyed [OF r, of drv_accept 8 3 "[]"] r h
  show ?thesis by (simp add: drv_accept_def)
qed

subsection \<open>Pattern compiler\<close>

lemma ipproto_distinct:
  "IPPROTO_UDP \<noteq> IPPROTO_ICMP" "IPPROTO_UDP \<noteq> IPPROTO_TCP" "IPPROTO_UDP \<noteq> IPPROTO_SCTP"
  by (simp_all add: IPPROTO_UDP_def IPPROTO_ICMP_def IPPROTO_SCTP_def IPPROTO_TCP_def)

text \<open>What \<^verbatim>\<open>add_flow_patterns\<close> returns for an IPv4/UDP match without a VLAN item.\<close>

lemma add_flow_patterns_udp:
  assumes ip: "dl_type (flow m) = ETH_TYPE_IP"
    and udp: "nw_proto (flow m) AND nw_proto (wc_masks m) = IPPROTO_UDP"
    and ps: "tp_src (wc_masks m) = 0 \<or> tp_src (wc_masks m) = OVS_BE16_MAX"
    and pd: "tp_dst (wc_masks m) = 0 \<or> tp_dst (wc_masks m) = OVS_BE16_MAX"
    and vl: "vlans0_tci (wc_masks m) = 0 \<or> vlans0_tci (flow m) = 0"
  shows "add_flow_patterns flow_patterns_init sp mp m =
    (0,
     \<lparr>items =
        [\<lparr>item_type = RTE_FLOW_ITEM_TYPE_ETH,
          item_spec = (if dl_src (wc_masks m) \<noteq> 0 \<or> dl_dst (wc_masks m) \<noteq> 0
                       then Some (Item_ptr sp M_eth) else None),
          item_mask = (if dl_src (wc_masks m) \<noteq> 0 \<or> dl_dst (wc_masks m) \<noteq> 0
                       then Some (Item_ptr mp M_eth) else None)\<rparr>,
         \<lparr>item_type = RTE_FLOW_ITEM_TYPE_IPV4,
          item_spec = Some (Item_ptr sp M_ipv4), item_mask = Some (Item_ptr mp M_ipv4)\<rparr>,
         \<lparr>item_type = RTE_FLOW_ITEM_TYPE_UDP,
          item_spec = Some (Item_ptr sp M_udp), item_mask = Some (Item_ptr mp M_udp)\<rparr>],
      pat_current_max = 8\<rparr>,
     flow_items_zero
       \<lparr>fi_eth := (if dl_src (wc_masks m) \<noteq> 0 \<or> dl_dst (wc_masks m) \<noteq> 0
                   then \<lparr>eth_dst = dl_dst (flow m), eth_src = dl_src (flow m),
                         eth_type = dl_type (flow m)\<rparr>
                   else fi_eth flow_items_zero),
        fi_ipv4 := \<lparr>type_of_service = nw_tos (flow m), time_to_live = nw_ttl (flow m),
                     next_proto_id = nw_proto (flow m),
                     src_addr = nw_src (flow m), dst_addr = nw_dst (flow m)\<rparr>,
        fi_udp := \<lparr>udp_src_port = tp_src (flow m), udp_dst_port = tp_dst (flow m)\<rparr>\<rparr>,
     flow_items_zero
       \<lparr>fi_eth := (if dl_src (wc_masks m) \<noteq> 0 \<or> dl_dst (wc_masks m) \<noteq> 0
                   then \<lparr>eth_dst = dl_dst (wc_masks m), eth_src = dl_src (wc_masks m),
                         eth_type = dl_type (wc_masks m)\<rparr>
                   else fi_eth flow_items_zero),
        fi_ipv4 := \<lparr>type_of_service = nw_tos (wc_masks m), time_to_live = nw_ttl (wc_masks m),
                     next_proto_id = 0,
                     src_addr = nw_src (wc_masks m), dst_addr = nw_dst (wc_masks m)\<rparr>,
        fi_udp := \<lparr>udp_src_port = tp_src (wc_masks m), udp_dst_port = tp_dst (wc_masks m)\<rparr>\<rparr>)"
proof -
  have c_vlan: "\<not> (vlans0_tci (wc_masks m) \<noteq> 0 \<and> vlans0_tci (flow m) \<noteq> 0)"
    using vl by blast
  have c_port: "\<not> ((tp_src (wc_masks m) \<noteq> 0 \<and> tp_src (wc_masks m) \<noteq> OVS_BE16_MAX) \<or>
                    (tp_dst (wc_masks m) \<noteq> 0 \<and> tp_dst (wc_masks m) \<noteq> OVS_BE16_MAX))"
    using ps pd by blast
  show ?thesis
  proof (cases "dl_src (wc_masks m) \<noteq> 0 \<or> dl_dst (wc_masks m) \<noteq> 0")
    case True
    show ?thesis
      unfolding add_flow_patterns_def Let_def
      by (simp only: True c_vlan c_port ip udp ipproto_distinct if_True if_False case_prod_conv
            simp_thms add_flow_pattern_def flow_patterns_init_def Let_def)
         (simp add: flow_items_zero_def)
  next
    case False
    show ?thesis
      unfolding add_flow_patterns_def Let_def
      by (simp only: False c_vlan c_port ip udp ipproto_distinct if_True if_False case_prod_conv
            simp_thms add_flow_pattern_def flow_patterns_init_def Let_def)
         (simp add: flow_items_zero_def)
  qed
qed

lemma flow_zero_sel [simp]:
  "dl_type flow_zero = 0" "dl_src flow_zero = 0" "dl_dst flow_zero = 0"
  "vlans0_tci flow_zero = 0" "nw_proto flow_zero = 0" "nw_tos flow_zero = 0"
  "nw_ttl flow_zero = 0" "nw_src flow_zero = 0" "nw_dst flow_zero = 0"
  "tp_src flow_zero = 0" "tp_dst flow_zero = 0" "tcp_flags flow_zero = 0"
  "in_port flow_zero = 0" "recirc_id flow_zero = 0" "nw_frag flow_zero = 0"
  "tunnel flow_zero = flow_tnl_zero"
  by (simp_all add: flow_zero_def)

text \<open>
  Claim C5, as amended. For a match whose ethertype is IPv4, whose masked IPv4
  protocol is UDP, whose transport port masks are each absent or the full mask, and
  which does not match a VLAN tag (the TCI mask or the TCI is zero), the pattern
  compiler succeeds, and the items the driver would read after the terminating END
  was appended are exactly ETH, IPV4, UDP, END: the IPv4 item carries the match's
  protocol in its spec and a next-protocol mask of zero, the UDP item carries the
  ports.
\<close>

theorem add_flow_patterns_udp_sequence:
  assumes "dl_type (flow m) = ETH_TYPE_IP"
    and "nw_proto (flow m) AND nw_proto (wc_masks m) = IPPROTO_UDP"
    and "tp_src (wc_masks m) = 0 \<or> tp_src (wc_masks m) = OVS_BE16_MAX"
    and "tp_dst (wc_masks m) = 0 \<or> tp_dst (wc_masks m) = OVS_BE16_MAX"
    and "vlans0_tci (wc_masks m) = 0 \<or> vlans0_tci (flow m) = 0"
  shows "(case add_flow_patterns flow_patterns_init 0 1 m of
           (r, patterns, spec, msk) \<Rightarrow>
             r = 0 \<and>
             map (deref_item (items_mem [spec, msk]))
               (items (add_flow_pattern patterns RTE_FLOW_ITEM_TYPE_END None None))
             = [\<lparr>val_type = RTE_FLOW_ITEM_TYPE_ETH,
                 val_spec =
                   (if dl_src (wc_masks m) \<noteq> 0 \<or> dl_dst (wc_masks m) \<noteq> 0
                    then Some (Data_eth \<lparr>eth_dst = dl_dst (flow m), eth_src = dl_src (flow m),
                                          eth_type = dl_type (flow m)\<rparr>)
                    else None),
                 val_mask =
                   (if dl_src (wc_masks m) \<noteq> 0 \<or> dl_dst (wc_masks m) \<noteq> 0
                    then Some (Data_eth \<lparr>eth_dst = dl_dst (wc_masks m),
                                          eth_src = dl_src (wc_masks m),
                                          eth_type = dl_type (wc_masks m)\<rparr>)
                    else None)\<rparr>,
                \<lparr>val_type = RTE_FLOW_ITEM_TYPE_IPV4,
                 val_spec = Some (Data_ipv4
                   \<lparr>type_of_service = nw_tos (flow m), time_to_live = nw_ttl (flow m),
                    next_proto_id = nw_proto (flow m),
                    src_addr = nw_src (flow m), dst_addr = nw_dst (flow m)\<rparr>),
                 val_mask = Some (Data_ipv4
                   \<lparr>type_of_service = nw_tos (wc_masks m), time_to_live = nw_ttl (wc_masks m),
                    next_proto_id = 0,
                    src_addr = nw_src (wc_masks m), dst_addr = nw_dst (wc_masks m)\<rparr>)\<rparr>,
                \<lparr>val_type = RTE_FLOW_ITEM_TYPE_UDP,
                 val_spec = Some (Data_udp
                   \<lparr>udp_src_port = tp_src (flow m), udp_dst_port = tp_dst (flow m)\<rparr>),
                 val_mask = Some (Data_udp
                   \<lparr>udp_src_port = tp_src (wc_masks m), udp_dst_port = tp_dst (wc_masks m)\<rparr>)\<rparr>,
                \<lparr>val_type = RTE_FLOW_ITEM_TYPE_END, val_spec = None, val_mask = None\<rparr>])"
  by (simp add: add_flow_patterns_udp [OF assms] add_flow_pattern_def deref_item_def items_mem_def)

theorem add_flow_patterns_udp_sequence_witness:
  "dl_type (flow match_udp) = ETH_TYPE_IP
   \<and> nw_proto (flow match_udp) AND nw_proto (wc_masks match_udp) = IPPROTO_UDP
   \<and> tp_src (wc_masks match_udp) = OVS_BE16_MAX
   \<and> tp_dst (wc_masks match_udp) = OVS_BE16_MAX
   \<and> vlans0_tci (wc_masks match_udp) = 0
   \<and> fst (add_flow_patterns flow_patterns_init 0 1 match_udp) = 0
   \<and> map val_type
        (map (deref_item
                (items_mem [fst (snd (snd (add_flow_patterns flow_patterns_init 0 1 match_udp))),
                            snd (snd (snd (add_flow_patterns flow_patterns_init 0 1 match_udp)))]))
           (items (add_flow_pattern
                     (fst (snd (add_flow_patterns flow_patterns_init 0 1 match_udp)))
                     RTE_FLOW_ITEM_TYPE_END None None)))
      = [RTE_FLOW_ITEM_TYPE_ETH, RTE_FLOW_ITEM_TYPE_IPV4, RTE_FLOW_ITEM_TYPE_UDP,
         RTE_FLOW_ITEM_TYPE_END]"
proof -
  have h: "dl_type (flow match_udp) = ETH_TYPE_IP"
    "nw_proto (flow match_udp) AND nw_proto (wc_masks match_udp) = IPPROTO_UDP"
    "tp_src (wc_masks match_udp) = OVS_BE16_MAX"
    "tp_dst (wc_masks match_udp) = OVS_BE16_MAX"
    "vlans0_tci (wc_masks match_udp) = 0"
    by (simp_all add: match_udp_def ETH_TYPE_IP_def IPPROTO_UDP_def OVS_BE16_MAX_def)
  from add_flow_patterns_udp_sequence [of match_udp] h
  show ?thesis by (simp add: case_prod_beta)
qed

theorem add_flow_patterns_udp_vlan_counterexample:
  "dl_type (flow match_udp_vlan) = ETH_TYPE_IP
   \<and> nw_proto (flow match_udp_vlan) AND nw_proto (wc_masks match_udp_vlan) = IPPROTO_UDP
   \<and> tp_src (wc_masks match_udp_vlan) = OVS_BE16_MAX
   \<and> tp_dst (wc_masks match_udp_vlan) = OVS_BE16_MAX
   \<and> tp_src (flow match_udp_vlan) = 53
   \<and> tp_dst (flow match_udp_vlan) = 4789
   \<and> fst (add_flow_patterns flow_patterns_init 0 1 match_udp_vlan) = 0
   \<and> map item_type
        (items (add_flow_pattern
                  (fst (snd (add_flow_patterns flow_patterns_init 0 1 match_udp_vlan)))
                  RTE_FLOW_ITEM_TYPE_END None None))
      = [RTE_FLOW_ITEM_TYPE_ETH, RTE_FLOW_ITEM_TYPE_VLAN, RTE_FLOW_ITEM_TYPE_IPV4,
         RTE_FLOW_ITEM_TYPE_UDP, RTE_FLOW_ITEM_TYPE_END]
   \<and> map item_type
        (items (add_flow_pattern
                  (fst (snd (add_flow_patterns flow_patterns_init 0 1 match_udp_vlan)))
                  RTE_FLOW_ITEM_TYPE_END None None))
      \<noteq> [RTE_FLOW_ITEM_TYPE_ETH, RTE_FLOW_ITEM_TYPE_IPV4, RTE_FLOW_ITEM_TYPE_UDP,
          RTE_FLOW_ITEM_TYPE_END]"
  by (simp add: add_flow_patterns_def Let_def flow_patterns_init_def add_flow_pattern_def
        match_udp_vlan_def IPPROTO_UDP_def IPPROTO_ICMP_def IPPROTO_SCTP_def IPPROTO_TCP_def
        ETH_TYPE_IP_def OVS_BE16_MAX_def)

text \<open>
  Claim C6. When the protocol that the compiler resolves (the IPv4 protocol of the
  match ANDed with its mask, or 0 when the ethertype is not IPv4) is none of ICMP,
  UDP, SCTP and TCP, and the match masks the transport source port, the transport
  destination port or the TCP flags, \<^verbatim>\<open>add_flow_patterns\<close> fails with \<open>-1\<close>.
\<close>

theorem add_flow_patterns_unsupported_l4:
  assumes "(if dl_type (flow m) = ETH_TYPE_IP
            then nw_proto (flow m) AND nw_proto (wc_masks m) else 0)
             \<notin> {IPPROTO_ICMP, IPPROTO_UDP, IPPROTO_SCTP, IPPROTO_TCP}"
    and "tp_src (wc_masks m) \<noteq> 0 \<or> tp_dst (wc_masks m) \<noteq> 0 \<or> tcp_flags (wc_masks m) \<noteq> 0"
  shows "fst (add_flow_patterns patterns sp mp m) = - 1"
proof (cases "dl_type (flow m) = ETH_TYPE_IP")
  case True
  with assms show ?thesis
    by (simp add: add_flow_patterns_def Let_def case_prod_beta)
next
  case False
  with assms show ?thesis
    by (simp add: add_flow_patterns_def Let_def case_prod_beta)
qed

theorem add_flow_patterns_unsupported_l4_witness:
  "(if dl_type (flow match_gre_port) = ETH_TYPE_IP
    then nw_proto (flow match_gre_port) AND nw_proto (wc_masks match_gre_port) else 0) = 47
   \<and> (47 :: 8 word) \<notin> {IPPROTO_ICMP, IPPROTO_UDP, IPPROTO_SCTP, IPPROTO_TCP}
   \<and> tp_src (wc_masks match_gre_port) \<noteq> 0
   \<and> fst (add_flow_patterns flow_patterns_init 0 1 match_gre_port) = - 1"
proof -
  have p: "(if dl_type (flow match_gre_port) = ETH_TYPE_IP
            then nw_proto (flow match_gre_port) AND nw_proto (wc_masks match_gre_port) else 0) = 47"
    by (simp add: match_gre_port_def ETH_TYPE_IP_def)
  have n: "(47 :: 8 word) \<notin> {IPPROTO_ICMP, IPPROTO_UDP, IPPROTO_SCTP, IPPROTO_TCP}"
    by (simp add: IPPROTO_UDP_def IPPROTO_ICMP_def IPPROTO_SCTP_def IPPROTO_TCP_def)
  have t: "tp_src (wc_masks match_gre_port) \<noteq> 0"
    by (simp add: match_gre_port_def)
  from add_flow_patterns_unsupported_l4 [of match_gre_port flow_patterns_init 0 1] p n t
  show ?thesis by simp
qed

subsection \<open>Tunnel outer ids\<close>

lemma id_pool_search_free: "id_pool_search used i n = Some j \<Longrightarrow> j \<notin> set used"
  by (induction used i n rule: id_pool_search.induct) (auto split: if_splits)

lemma id_pool_alloc_id_free:
  "id_pool_alloc_id p = Some (i, p') \<Longrightarrow> i \<notin> set (pool_used p) \<and> pool_used p' = i # pool_used p"
  by (auto simp: id_pool_alloc_id_def split: option.splits dest: id_pool_search_free)

lemma id_pool_search_first: "0 < n \<Longrightarrow> i \<notin> set used \<Longrightarrow> id_pool_search used i n = Some i"
  by (cases n) simp_all

lemma tun_first_alloc:
  assumes nf: "find (tun_key_eq dst src tid) (tun_to_outer_id_map c) = None"
    and a: "netdev_dpdk_tun_id_get_ref c dst src tid = (oid, c1)"
    and v: "oid \<noteq> INVALID_OUTER_ID"
  shows "\<exists>p'. c1 = c\<lparr>pool := Some p',
            tun_to_outer_id_map :=
              \<lparr>outer_id = oid, td_ip_dst = dst, td_ip_src = src, td_tun_id = tid, ref_count = 1\<rparr>
                # tun_to_outer_id_map c,
            outer_id_to_tun_map :=
              \<lparr>outer_id = oid, td_ip_dst = dst, td_ip_src = src, td_tun_id = tid, ref_count = 0\<rparr>
                # outer_id_to_tun_map c\<rparr>
         \<and> oid \<in> set (pool_used p')"
proof -
  let ?p = "case pool c of None \<Rightarrow> id_pool_create 1 MAX_OUTER_ID | Some p \<Rightarrow> p"
  from a nf have al: "netdev_dpdk_tun_outer_id_alloc c dst src tid = (oid, c1)"
    by (simp add: netdev_dpdk_tun_id_get_ref_def netdev_dpdk_tun_outer_id_get_ref_def)
  show ?thesis
  proof (cases "id_pool_alloc_id ?p")
    case None
    with al v show ?thesis
      by (simp add: netdev_dpdk_tun_outer_id_alloc_def Let_def)
  next
    case (Some r)
    obtain i p' where r: "r = (i, p')" by (cases r)
    from Some r have u: "pool_used p' = i # pool_used ?p"
      using id_pool_alloc_id_free by blast
    from al Some r have "oid = i" and "c1 = netdev_dpdk_tun_data_insert
                (c\<lparr>pool := Some p',
                   tun_to_outer_id_map :=
                     cmap_insert \<lparr>outer_id = i, td_ip_dst = dst, td_ip_src = src,
                                  td_tun_id = tid, ref_count = 1\<rparr>
                       (tun_to_outer_id_map c)\<rparr>)
                i dst src tid"
      by (auto simp add: netdev_dpdk_tun_outer_id_alloc_def Let_def)
    with u show ?thesis
      by (intro exI [of _ p']) (simp add: netdev_dpdk_tun_data_insert_def cmap_insert_def)
  qed
qed

text \<open>
  Claim C7. Take a tunnel 3-tuple that has no entry in the forward map, and let a
  first \<^verbatim>\<open>netdev_dpdk_tun_id_get_ref\<close> hand out a valid outer id for it. Then a
  second call for the same tuple returns the same outer id and the entry's reference
  count is 2. One unref leaves the count at 1, the forward entry and the reverse
  entry in place and the id still allocated in the pool. A second unref puts both
  maps back to what they were before the first call (the entries are gone) and the
  id is no longer allocated in the pool. Neither unref reads a NULL pool.
\<close>

theorem tun_outer_id_shared_refcount:
  assumes nf: "find (tun_key_eq dst src tid) (tun_to_outer_id_map c) = None"
    and a1: "netdev_dpdk_tun_id_get_ref c dst src tid = (oid, c1)"
    and v: "oid \<noteq> INVALID_OUTER_ID"
    and a2: "netdev_dpdk_tun_id_get_ref c1 dst src tid = (oid', c2)"
  shows "oid' = oid
    \<and> map_option ref_count (find (tun_key_eq dst src tid) (tun_to_outer_id_map c2)) = Some 2
    \<and> (case netdev_dpdk_tun_id_unref c2 dst src tid of
         None \<Rightarrow> False
       | Some c3 \<Rightarrow>
           map_option ref_count (find (tun_key_eq dst src tid) (tun_to_outer_id_map c3)) = Some 1
           \<and> map_option outer_id (find (tun_key_eq dst src tid) (tun_to_outer_id_map c3)) = Some oid
           \<and> netdev_dpdk_tun_data_find c3 oid
               = Some \<lparr>outer_id = oid, td_ip_dst = dst, td_ip_src = src, td_tun_id = tid,
                       ref_count = 0\<rparr>
           \<and> (case pool c3 of None \<Rightarrow> False | Some p \<Rightarrow> oid \<in> set (pool_used p))
           \<and> (case netdev_dpdk_tun_id_unref c3 dst src tid of
                None \<Rightarrow> False
              | Some c4 \<Rightarrow>
                  tun_to_outer_id_map c4 = tun_to_outer_id_map c
                  \<and> find (tun_key_eq dst src tid) (tun_to_outer_id_map c4) = None
                  \<and> outer_id_to_tun_map c4 = outer_id_to_tun_map c
                  \<and> (case pool c4 of None \<Rightarrow> False | Some p \<Rightarrow> oid \<notin> set (pool_used p))))"
proof -
  from tun_first_alloc [OF nf a1 v] obtain p' where
    c1: "c1 = c\<lparr>pool := Some p',
            tun_to_outer_id_map :=
              \<lparr>outer_id = oid, td_ip_dst = dst, td_ip_src = src, td_tun_id = tid, ref_count = 1\<rparr>
                # tun_to_outer_id_map c,
            outer_id_to_tun_map :=
              \<lparr>outer_id = oid, td_ip_dst = dst, td_ip_src = src, td_tun_id = tid, ref_count = 0\<rparr>
                # outer_id_to_tun_map c\<rparr>"
    and u: "oid \<in> set (pool_used p')"
    by blast
  have k: "tun_key_eq dst src tid
             \<lparr>outer_id = oid, td_ip_dst = dst, td_ip_src = src, td_tun_id = tid, ref_count = r\<rparr>" for r
    by (simp add: tun_key_eq_def)
  let ?e2 = "\<lparr>outer_id = oid, td_ip_dst = dst, td_ip_src = src, td_tun_id = tid, ref_count = 2\<rparr>"
  let ?e1 = "\<lparr>outer_id = oid, td_ip_dst = dst, td_ip_src = src, td_tun_id = tid, ref_count = 1\<rparr>"
  let ?e0 = "\<lparr>outer_id = oid, td_ip_dst = dst, td_ip_src = src, td_tun_id = tid, ref_count = 0\<rparr>"
  let ?c3 = "c1\<lparr>tun_to_outer_id_map := ?e1 # tun_to_outer_id_map c\<rparr>"
  let ?c4 = "c\<lparr>pool := Some (id_pool_free_id p' oid)\<rparr>"
  from a2 v have e: "oid' = oid"
    and c2: "c2 = c1\<lparr>tun_to_outer_id_map := ?e2 # tun_to_outer_id_map c\<rparr>"
    by (auto simp: c1 k netdev_dpdk_tun_id_get_ref_def netdev_dpdk_tun_outer_id_get_ref_def)
  have r2: "map_option ref_count (find (tun_key_eq dst src tid) (tun_to_outer_id_map c2)) = Some 2"
    by (simp add: c2 k)
  have c3: "netdev_dpdk_tun_id_unref c2 dst src tid = Some ?c3"
    by (simp add: c2 c1 k netdev_dpdk_tun_id_unref_def netdev_dpdk_tun_outer_id_unref_def)
  have c4: "netdev_dpdk_tun_id_unref ?c3 dst src tid = Some ?c4"
    by (simp add: c1 k netdev_dpdk_tun_id_unref_def netdev_dpdk_tun_outer_id_unref_def
          netdev_dpdk_tun_data_del_def Let_def)
  have p3: "map_option ref_count (find (tun_key_eq dst src tid) (tun_to_outer_id_map ?c3)) = Some 1"
    "map_option outer_id (find (tun_key_eq dst src tid) (tun_to_outer_id_map ?c3)) = Some oid"
    "netdev_dpdk_tun_data_find ?c3 oid = Some ?e0"
    "(case pool ?c3 of None \<Rightarrow> False | Some p \<Rightarrow> oid \<in> set (pool_used p))"
    using u by (simp_all add: c1 k netdev_dpdk_tun_data_find_def)
  have p4: "tun_to_outer_id_map ?c4 = tun_to_outer_id_map c"
    "find (tun_key_eq dst src tid) (tun_to_outer_id_map ?c4) = None"
    "outer_id_to_tun_map ?c4 = outer_id_to_tun_map c"
    "(case pool ?c4 of None \<Rightarrow> False | Some p \<Rightarrow> oid \<notin> set (pool_used p))"
    using nf by (simp_all add: id_pool_free_id_def)
  show ?thesis
    by (simp only: c3 c4 option.case) (intro conjI e r2 p3 p4)
qed

theorem tun_outer_id_shared_refcount_witness:
  "find (tun_key_eq 1 2 3) (tun_to_outer_id_map tun_ctx_outer_id_init) = None
   \<and> fst (netdev_dpdk_tun_id_get_ref tun_ctx_outer_id_init 1 2 3) = 1
   \<and> (1 :: 32 word) \<noteq> INVALID_OUTER_ID
   \<and> fst (netdev_dpdk_tun_id_get_ref
             (snd (netdev_dpdk_tun_id_get_ref tun_ctx_outer_id_init 1 2 3)) 1 2 3) = 1
   \<and> map_option ref_count
        (find (tun_key_eq 1 2 3)
           (tun_to_outer_id_map
              (snd (netdev_dpdk_tun_id_get_ref
                      (snd (netdev_dpdk_tun_id_get_ref tun_ctx_outer_id_init 1 2 3)) 1 2 3))))
      = Some 2"
proof -
  let ?c1 = "snd (netdev_dpdk_tun_id_get_ref tun_ctx_outer_id_init 1 2 3)"
  have s: "id_pool_search [] 1 (unat MAX_OUTER_ID) = Some 1"
    by (rule id_pool_search_first) (simp_all add: MAX_OUTER_ID_def)
  have nf: "find (tun_key_eq 1 2 3) (tun_to_outer_id_map tun_ctx_outer_id_init) = None"
    by (simp add: tun_ctx_outer_id_init_def)
  have a1: "netdev_dpdk_tun_id_get_ref tun_ctx_outer_id_init 1 2 3 = (1, ?c1)"
    by (simp add: netdev_dpdk_tun_id_get_ref_def netdev_dpdk_tun_outer_id_get_ref_def
          netdev_dpdk_tun_outer_id_alloc_def tun_ctx_outer_id_init_def id_pool_alloc_id_def
          id_pool_create_def s INVALID_OUTER_ID_def)
  have v: "(1 :: 32 word) \<noteq> INVALID_OUTER_ID"
    by (simp add: INVALID_OUTER_ID_def)
  have a2: "netdev_dpdk_tun_id_get_ref ?c1 1 2 3
              = (fst (netdev_dpdk_tun_id_get_ref ?c1 1 2 3), snd (netdev_dpdk_tun_id_get_ref ?c1 1 2 3))"
    by simp
  note r = tun_outer_id_shared_refcount [OF nf a1 v a2]
  have f1: "fst (netdev_dpdk_tun_id_get_ref tun_ctx_outer_id_init 1 2 3) = 1"
    using a1 by (metis fst_conv)
  show ?thesis
    using nf f1 v r [THEN conjunct1] r [THEN conjunct2, THEN conjunct1] by blast
qed

subsection \<open>The miss-context store\<close>

text \<open>
  Claim C2, on the code. From the empty store, for every mark and every conntrack
  payload, \<^verbatim>\<open>netdev_dpdk_save_ct_miss_ctx\<close> succeeds and puts the payload into the
  file-level map \<^verbatim>\<open>mark_to_ct_ctx\<close>, while the member map that
  \<^verbatim>\<open>netdev_dpdk_find_miss_ctx\<close> walks stays empty: the lookup of the mark that was
  just saved finds nothing.
\<close>

theorem miss_ctx_find_after_save_not_found:
  "netdev_dpdk_save_ct_miss_ctx mark fl cm cz cs oi reply miss_ctx_state_init
     = (0,
        \<lparr>mark_to_ct_ctx =
           [\<lparr>mc_mark = mark, mc_type = MARK_PREPROCESS_CT, mc_ct_mark = cm, mc_ct_zone = cz,
             mc_ct_state = cs, mc_outer_id = ucast oi, mc_in_port = [0, 0],
             mc_rte_flow = (if reply then [None, fl] else [fl, None])\<rparr>],
         info_mark_to_ct_ctx = []\<rparr>)
   \<and> netdev_dpdk_find_miss_ctx mark
        (snd (netdev_dpdk_save_ct_miss_ctx mark fl cm cz cs oi reply miss_ctx_state_init))
      = None"
  by (simp add: netdev_dpdk_save_ct_miss_ctx_def netdev_dpdk_get_flow_miss_ctx_def
        netdev_dpdk_find_miss_ctx_def miss_ctx_state_init_def miss_ctx_write_def
        mark_to_miss_ctx_data_zero_def cmap_insert_def Let_def)

subsection \<open>Driver traces and the port registry\<close>

lemma created_in_refl [simp]: "created_in tr tr None"
  by (simp add: created_in_def)

lemma created_in_weaken: "created_in a b fl \<Longrightarrow> created_in a b None"
  by (auto simp: created_in_def)

lemma created_in_trans_l: "created_in a b fl \<Longrightarrow> created_in b c None \<Longrightarrow> created_in a c fl"
  by (auto simp: created_in_def)

lemma created_in_trans_r: "created_in a b None \<Longrightarrow> created_in b c fl \<Longrightarrow> created_in a c fl"
  by (auto simp: created_in_def)

lemma create_created_in:
  "netdev_dpdk_rte_flow_create D nd attr its acts tr = (r, tr') \<Longrightarrow> created_in tr tr' r"
  by (auto simp: netdev_dpdk_rte_flow_create_def created_in_def Let_def)

lemma mark_rss_created_in:
  "netdev_rte_offload_mark_rss D nd info mem patterns acts confs pid attr tr = (fl, acts', tr')
   \<Longrightarrow> created_in tr tr' fl"
  by (auto simp: netdev_rte_offload_mark_rss_def Let_def split: prod.splits
        dest: create_created_in)

lemma offload_flow_created_in:
  "netdev_rte_offload_flow D nd info mem patterns acts confs attr tr = (fl, info', acts', tr')
   \<Longrightarrow> created_in tr tr' fl"
  by (auto simp: netdev_rte_offload_flow_def Let_def split: prod.splits
        dest: create_created_in)

lemma default_flow_created_in:
  "netdev_rte_offload_add_default_flow D rp vp tr = (fl, tr') \<Longrightarrow> created_in tr tr' None"
  by (auto simp: netdev_rte_offload_add_default_flow_def Let_def split: prod.splits
        dest: create_created_in created_in_weaken)

lemma jump_created_in:
  "netdev_dpdk_add_jump_to_non_root_table D nd info tr = (fl, info', tr') \<Longrightarrow> created_in tr tr' None"
  by (auto simp: netdev_dpdk_add_jump_to_non_root_table_def Let_def split: prod.splits
        dest: offload_flow_created_in created_in_weaken)

lemma cmap_update_map_inv:
  "(\<And>x. g (f x) = g x) \<Longrightarrow> map g (cmap_update P f xs) = map g xs"
  by (induction xs) auto

lemma add_flow_frame:
  assumes "netdev_rte_offloads_add_flow D s nd m acts u info = Some (fl, info', s')"
  shows "ufid_to_portid_map s' = ufid_to_portid_map s
       \<and> dpdk_phy_ports_amount s' = dpdk_phy_ports_amount s
       \<and> created_in (drv_calls s) (drv_calls s') fl
       \<and> map (\<lambda>p. (dp_port p, ufid_to_rte p)) (port_map s')
           = map (\<lambda>p. (dp_port p, ufid_to_rte p)) (port_map s)"
  using assms
  apply (auto simp: netdev_rte_offloads_add_flow_def Let_def rte_port_write_def cmap_update_map_inv
        split: prod.splits option.splits if_splits
        dest: mark_rss_created_in offload_flow_created_in jump_created_in)
        apply (blast intro: created_in_trans_l created_in_trans_r
          dest: offload_flow_created_in default_flow_created_in jump_created_in created_in_weaken)+
  done

lemma rte_port_write_sel [simp]:
  "drv_calls (rte_port_write p f s) = drv_calls s"
  "ufid_to_portid_map (rte_port_write p f s) = ufid_to_portid_map s"
  "dpdk_phy_ports_amount (rte_port_write p f s) = dpdk_phy_ports_amount s"
  by (simp_all add: rte_port_write_def)

lemma search_cmap_update:
  "(\<And>x. dp_port (f x) = dp_port x) \<Longrightarrow>
   netdev_rte_port_search q (cmap_update (\<lambda>d. q = dp_port d) f pm)
     = map_option f (netdev_rte_port_search q pm)"
  by (induction pm) (auto simp: netdev_rte_port_search_def)

lemma search_map_eq:
  "map (\<lambda>p. (dp_port p, ufid_to_rte p)) pm' = map (\<lambda>p. (dp_port p, ufid_to_rte p)) pm \<Longrightarrow>
   map_option ufid_to_rte (netdev_rte_port_search q pm')
     = map_option ufid_to_rte (netdev_rte_port_search q pm)"
proof (induction pm arbitrary: pm')
  case Nil
  then show ?case by (simp add: netdev_rte_port_search_def)
next
  case (Cons a pm)
  from Cons.prems obtain b pm2 where pm': "pm' = b # pm2" by (cases pm') simp_all
  from Cons.prems pm' have hd: "dp_port b = dp_port a" "ufid_to_rte b = ufid_to_rte a"
    and tl: "map (\<lambda>p. (dp_port p, ufid_to_rte p)) pm2 = map (\<lambda>p. (dp_port p, ufid_to_rte p)) pm"
    by simp_all
  from Cons.IH [OF tl] have ih: "map_option ufid_to_rte (find (\<lambda>d. q = dp_port d) pm2)
     = map_option ufid_to_rte (find (\<lambda>d. q = dp_port d) pm)"
    by (simp add: netdev_rte_port_search_def)
  show ?case
    unfolding netdev_rte_port_search_def pm'
    by (cases "q = dp_port a") (simp_all add: hd ih)
qed

lemma destroy_flows_trace:
  "\<exists>es. hw_offload_destroy_flows D ps tr = tr @ es \<and>
        map destroy_target es
          = map Some (List.map_filter (\<lambda>p. map_option (\<lambda>f. (rfp_netdev p, f)) (rfp_flow p)) ps)"
proof (induction ps arbitrary: tr)
  case Nil
  then show ?case by (simp add: List.map_filter_simps)
next
  case (Cons p ps)
  show ?case
  proof (cases "rfp_flow p")
    case None
    with Cons [of tr] show ?thesis by (simp add: List.map_filter_simps)
  next
    case (Some f)
    let ?e = "Flow_destroy (rfp_netdev p) f (drv_flow_destroy D tr (rfp_netdev p) f)"
    from Cons [of "tr @ [?e]"] obtain es where
      "hw_offload_destroy_flows D ps (tr @ [?e]) = (tr @ [?e]) @ es"
      "map destroy_target es
          = map Some (List.map_filter (\<lambda>p. map_option (\<lambda>f. (rfp_netdev p, f)) (rfp_flow p)) ps)"
      by blast
    with Some show ?thesis
      by (intro exI [of _ "?e # es"])
         (simp add: List.map_filter_simps netdev_dpdk_rte_flow_destroy_def Let_def)
  qed
qed

lemma free_trace:
  "\<exists>es. netdev_rte_port_ufid_hw_offload_free D h tr = (0, tr @ es) \<and>
        map destroy_target es = map Some (hw_offload_handles h)"
  using destroy_flows_trace [of D "take (nat (curr_idx h)) (rte_flow_data h)" tr]
  by (auto simp: netdev_rte_port_ufid_hw_offload_free_def hw_offload_handles_def)

lemmas eval_defs =
  netdev_rte_offloads_flow_put_def Let_def netdev_rte_port_search_def
  ufid_hw_offload_find_def ufid_hw_offload_remove_def ufid_hw_offload_add_def cmap_insert_def
  netdev_rte_port_ufid_hw_offload_free_def netdev_dpdk_rte_flow_destroy_def
  rte_port_write_def ufid_to_portid_add_def ufid_to_portid_search_def ufid_to_portid_get_def
  INVALID_ODP_PORT_def
  netdev_rte_offloads_validate_flow_def match_init_def flow_tnl_and_def flow_tnl_is_all_zeros_def
  netdev_rte_offloads_add_flow_def add_flow_patterns_def add_flow_pattern_def
  flow_patterns_init_def flow_actions_init_def nl_attrs_def items_mem_def
  ETH_TYPE_IP_def IPPROTO_ICMP_def IPPROTO_TCP_def IPPROTO_UDP_def IPPROTO_SCTP_def
  netdev_rte_offload_mark_rss_def netdev_rte_offload_flow_def add_flow_action_def
  add_flow_rss_action_def netdev_dpdk_rte_flow_create_def
  netdev_rte_add_jump_flow_action_def netdev_rte_add_count_flow_action_def
  netdev_rte_add_port_id_flow_action_def get_output_port_def
  netdev_rte_offload_add_default_flow_def
  ufid_hw_offload_add_rte_flow_def netdev_rte_port_ufid_hw_offload_alloc_def
  RTE_FLOW_MAX_TABLES_def VXLAN_TABLE_ID_def
  hw_offload_handles_def List.map_filter_simps deref_action_def deref_item_def

lemmas example_defs =
  state_with_offload_def state_two_ports_def port_phys_def port_vxlan_def hw_offload_old_def
  match_in1_def flow_zero_def flow_tnl_zero_def info0_def drv_accept_def drv_no_default_def

subsection \<open>Flow modification\<close>

text \<open>
  What a modification does with the handles that the identity record holds. When the
  registry of the ingress port has a record \<open>old\<close> for the ufid, a
  \<^verbatim>\<open>netdev_rte_offloads_flow_put\<close> that returns extends the driver trace by
  \<open>ds @ cs\<close>: first the destroy calls \<open>ds\<close>, one for each handle recorded in \<open>old\<close>, in
  order, and only then the calls \<open>cs\<close>, all of them flow creations. Afterwards the
  registry of the port is the fresh record \<open>h'\<close> of capacity 1 put in front of the
  registry with \<open>old\<close> taken out; when the request returned 0, \<open>h'\<close> holds exactly one
  handle, returned by one of the creations \<open>cs\<close> and recorded with the device of the
  request. Nothing is said here about handles that were created for \<open>old\<close> without
  being recorded in it.
\<close>

lemma flow_put_modify_recorded_handles:
  assumes port: "netdev_rte_port_search (in_port (flow m)) (port_map s) = Some rte_port"
    and old: "ufid_hw_offload_find u (ufid_to_rte rte_port) = Some old"
    and put: "netdev_rte_offloads_flow_put D s nd m nl_actions u info = Some (r, info', s')"
  shows "\<exists>ds cs h'.
           drv_calls s' = drv_calls s @ ds @ cs
         \<and> map destroy_target ds = map Some (hw_offload_handles old)
         \<and> list_all is_create cs
         \<and> map_option ufid_to_rte (netdev_rte_port_search (in_port (flow m)) (port_map s'))
             = Some (h' # cmap_remove (\<lambda>d. u = ufid d) (ufid_to_rte rte_port))
         \<and> ufid h' = u \<and> max_flows h' = 1
         \<and> (\<forall>(n, f) \<in> set (hw_offload_handles h').
               n = nd \<and> Some f \<in> set (map create_result cs))
         \<and> (r = 0 \<longrightarrow>
               (\<exists>f. hw_offload_handles h' = [(nd, f)]
                    \<and> Some f \<in> set (map create_result cs)))"
proof -
  let ?inp = "in_port (flow m)"
  let ?rm = "cmap_remove (\<lambda>d. u = ufid d) (ufid_to_rte rte_port)"
  let ?h = "netdev_rte_port_ufid_hw_offload_alloc 1 u"
  let ?sr = "rte_port_write ?inp
               (\<lambda>p. p\<lparr>ufid_to_rte := snd (ufid_hw_offload_remove u (ufid_to_rte p))\<rparr>) s"
  from free_trace [of D old "drv_calls s"] obtain ds where
    fr: "netdev_rte_port_ufid_hw_offload_free D old (drv_calls s) = (0, drv_calls s @ ds)"
    and ds: "map destroy_target ds = map Some (hw_offload_handles old)"
    by blast
  let ?s1 = "?sr\<lparr>drv_calls := drv_calls s @ ds\<rparr>"
  let ?s2 = "rte_port_write ?inp
               (\<lambda>p. p\<lparr>ufid_to_rte := ufid_hw_offload_add ?h (ufid_to_rte p)\<rparr>) ?s1"
  let ?s3 = "?s2\<lparr>ufid_to_portid_map :=
                  snd (ufid_to_portid_add (ufid_to_portid_map ?s2) u (dp_port rte_port))\<rparr>"
  have calls3: "drv_calls ?s3 = drv_calls s @ ds"
    by simp
  have reg3: "map_option ufid_to_rte (netdev_rte_port_search ?inp (port_map ?s3)) = Some (?h # ?rm)"
    using port old
    by (simp add: rte_port_write_def search_cmap_update ufid_hw_offload_remove_def
          ufid_hw_offload_add_def cmap_insert_def)
  have hh: "ufid ?h = u" "max_flows ?h = 1" "hw_offload_handles ?h = []"
    by (simp_all add: netdev_rte_port_ufid_hw_offload_alloc_def hw_offload_handles_def
          List.map_filter_simps)
  have unf: "netdev_rte_offloads_flow_put D s nd m nl_actions u info =
      (if netdev_rte_offloads_validate_flow m False < 0 then Some (EINVAL, info, ?s3)
       else
         (case netdev_rte_offloads_add_flow D ?s3 nd m nl_actions u info of
            None \<Rightarrow> None
          | Some (None, info', s4) \<Rightarrow> Some (ENODEV, info', s4)
          | Some (Some rte_flow, info', s4) \<Rightarrow>
              (let (h', tr') = ufid_hw_offload_add_rte_flow D ?h rte_flow nd (drv_calls s4);
                   s5 = rte_port_write ?inp
                          (\<lambda>p. p\<lparr>ufid_to_rte :=
                                   cmap_update (\<lambda>d. u = ufid d) (\<lambda>d. h') (ufid_to_rte p)\<rparr>)
                          (s4\<lparr>drv_calls := tr'\<rparr>)
               in Some (0, info', s5))))"
    using port old fr
    by (simp add: netdev_rte_offloads_flow_put_def Let_def)
  show ?thesis
  proof (cases "netdev_rte_offloads_validate_flow m False < 0")
    case True
    with put unf have "s' = ?s3" "r = EINVAL" by simp_all
    with calls3 reg3 ds hh show ?thesis
      by (intro exI [of _ ds] exI [of _ "[]"] exI [of _ ?h]) (simp add: EINVAL_def)
  next
    case False
    with put unf obtain fl s4 where
      af: "netdev_rte_offloads_add_flow D ?s3 nd m nl_actions u info = Some (fl, info', s4)"
      by (auto split: option.splits prod.splits)
    from add_flow_frame [OF af] calls3 obtain cs where
      calls4: "drv_calls s4 = drv_calls s @ ds @ cs" and cr: "list_all is_create cs"
      and res: "fl = None \<or> fl \<in> set (map create_result cs)"
      and pm4: "map (\<lambda>p. (dp_port p, ufid_to_rte p)) (port_map s4)
                  = map (\<lambda>p. (dp_port p, ufid_to_rte p)) (port_map ?s3)"
      by (auto simp: created_in_def)
    from search_map_eq [OF pm4, of ?inp] reg3
    have reg4: "map_option ufid_to_rte (netdev_rte_port_search ?inp (port_map s4)) = Some (?h # ?rm)"
      by simp
    show ?thesis
    proof (cases fl)
      case None
      with put unf False af have "s' = s4" "r = ENODEV" by simp_all
      with calls4 cr reg4 ds hh show ?thesis
        by (intro exI [of _ ds] exI [of _ cs] exI [of _ ?h]) (simp add: ENODEV_def)
    next
      case (Some f)
      let ?h' = "\<lparr>ufid = u, max_flows = 1, curr_idx = 1,
                  rte_flow_data = [\<lparr>rfp_flow = Some f, rfp_netdev = nd\<rparr>]\<rparr>"
      have add: "ufid_hw_offload_add_rte_flow D ?h f nd (drv_calls s4) = (?h', drv_calls s4)"
        by (simp add: ufid_hw_offload_add_rte_flow_def netdev_rte_port_ufid_hw_offload_alloc_def)
      from put unf False af Some add
      have s': "s' = rte_port_write ?inp
                       (\<lambda>p. p\<lparr>ufid_to_rte :=
                                cmap_update (\<lambda>d. u = ufid d) (\<lambda>d. ?h') (ufid_to_rte p)\<rparr>)
                       (s4\<lparr>drv_calls := drv_calls s4\<rparr>)"
        by simp
      have reg5: "map_option ufid_to_rte (netdev_rte_port_search ?inp (port_map s')) = Some (?h' # ?rm)"
        using reg4 hh(1)
        by (auto simp: s' rte_port_write_def search_cmap_update)
      have hh': "hw_offload_handles ?h' = [(nd, f)]"
        by (simp add: hw_offload_handles_def List.map_filter_simps)
      from calls4 cr reg5 ds hh' res Some show ?thesis
        by (intro exI [of _ ds] exI [of _ cs] exI [of _ ?h']) (simp add: s' rte_port_write_def)
    qed
  qed
qed

text \<open>
  Claim C1, on the code. A flow with a clone action is put twice under ufid 5 on
  port 1, with a driver that accepts everything. Each put creates two flows, the
  jump flow of \<^verbatim>\<open>netdev_dpdk_add_jump_to_non_root_table\<close> and the flow itself, and
  records the second only. The second put therefore destroys handle 2 and nothing
  else: the jump flow 1 of the first put is still installed while the flows 4 and 5
  of the second put are created, and it stays installed afterwards, together with
  the new jump flow 4, while the record of the ufid holds handle 5 alone. The result
  lists, for the state after the first put, the status, the handles returned, the
  handles recorded on port 1 and the flows installed; for the state after the second
  put, the status, the action types of each creation, the handles returned, the
  handles destroyed, the handles recorded on port 1 and the flows installed.
\<close>

theorem flow_put_clone_twice_leaves_old_jump_flow:
  "map_option
     (\<lambda>(r1, i1, s1).
        (r1,
         map create_result (drv_calls s1),
         map_option (map hw_offload_handles \<circ> ufid_to_rte)
           (netdev_rte_port_search 1 (port_map s1)),
         live_flows (drv_calls s1),
         map_option
           (\<lambda>(r2, i2, s2).
              (r2,
               map create_action_types (drv_calls s2),
               map create_result (drv_calls s2),
               map destroy_target (drv_calls s2),
               map_option (map hw_offload_handles \<circ> ufid_to_rte)
                 (netdev_rte_port_search 1 (port_map s2)),
               live_flows (drv_calls s2)))
           (netdev_rte_offloads_flow_put drv_accept s1 10 match_in1
              (Some [OVS_ACTION_ATTR_CLONE [OVS_ACTION_ATTR_OUTPUT 1]]) 5 i1)))
     (netdev_rte_offloads_flow_put drv_accept state_two_ports 10 match_in1
        (Some [OVS_ACTION_ATTR_CLONE [OVS_ACTION_ATTR_OUTPUT 1]]) 5 info0)
   = Some (0,
           [Some 1, Some 2],
           Some [[(10, 2)]],
           [1, 2],
           Some (0,
                 [[RTE_FLOW_ACTION_TYPE_JUMP, RTE_FLOW_ACTION_TYPE_END],
                  [RTE_FLOW_ACTION_TYPE_COUNT, RTE_FLOW_ACTION_TYPE_PORT_ID,
                   RTE_FLOW_ACTION_TYPE_END],
                  [],
                  [RTE_FLOW_ACTION_TYPE_JUMP, RTE_FLOW_ACTION_TYPE_END],
                  [RTE_FLOW_ACTION_TYPE_COUNT, RTE_FLOW_ACTION_TYPE_PORT_ID,
                   RTE_FLOW_ACTION_TYPE_END]],
                 [Some 1, Some 2, None, Some 4, Some 5],
                 [None, None, Some (10, 2), None, None],
                 Some [[(10, 5)]],
                 [1, 4, 5]))"
  by (simp add: eval_defs example_defs netdev_dpdk_add_jump_to_non_root_table_def live_flows_def)

subsection \<open>The reverse map\<close>

lemma flow_put_reverse_map:
  assumes "netdev_rte_offloads_flow_put D s nd m nl_actions u info = Some (r, info', s')"
  shows "ufid_to_portid_map s' = ufid_to_portid_map s
       \<or> (\<exists>p. ufid_to_portid_map s' = snd (ufid_to_portid_add (ufid_to_portid_map s) u p))"
  using assms
  by (auto simp: netdev_rte_offloads_flow_put_def Let_def
        split: option.splits prod.splits if_splits dest!: add_flow_frame)

lemma find_cmap_remove_distinct:
  "distinct (map k xs) \<Longrightarrow> find (\<lambda>d. a = k d) (cmap_remove (\<lambda>d. a = k d) xs) = None"
  by (induction xs) (auto simp: find_None_iff)

text \<open>
  Claim C10. A ufid is present in the reverse map when \<^verbatim>\<open>ufid_to_portid_search\<close>
  finds a port for it, which is the test \<^verbatim>\<open>ufid_to_portid_add\<close> makes. For such a
  ufid, \<^verbatim>\<open>ufid_to_portid_add\<close> with any port \<open>p\<close> returns \<open>p\<close> and leaves the map as it
  was; a \<^verbatim>\<open>netdev_rte_offloads_flow_put\<close> of that ufid, through whatever ingress
  port, leaves the map as it was too. Once the ufid is removed (from a map without
  duplicate ufids), adding it with \<open>p\<close> makes the search return \<open>p\<close>.
\<close>

theorem ufid_to_portid_add_existing_unchanged:
  assumes "ufid_to_portid_search m u \<noteq> INVALID_ODP_PORT"
  shows "ufid_to_portid_add m u p = (p, m)
    \<and> (\<forall>D s nd mt nl_actions info r info' s'.
          ufid_to_portid_map s = m \<longrightarrow>
          netdev_rte_offloads_flow_put D s nd mt nl_actions u info = Some (r, info', s') \<longrightarrow>
          ufid_to_portid_map s' = m)
    \<and> (distinct (map uo_ufid m) \<longrightarrow>
          ufid_to_portid_search (snd (ufid_to_portid_add (ufid_to_portid_remove m u) u p)) u = p)"
proof -
  from assms obtain d where g: "ufid_to_portid_get m u = Some d"
    by (cases "ufid_to_portid_get m u") (simp_all add: ufid_to_portid_search_def)
  from assms have a: "ufid_to_portid_add m u q = (q, m)" for q
    by (simp add: ufid_to_portid_add_def)
  have b: "ufid_to_portid_map s' = m"
    if "ufid_to_portid_map s = m"
      and "netdev_rte_offloads_flow_put D s nd mt nl_actions u info = Some (r, info', s')"
    for D s nd mt nl_actions info r info' s'
    using flow_put_reverse_map [OF that(2)] that(1) a
    by auto
  have c: "ufid_to_portid_search (snd (ufid_to_portid_add (ufid_to_portid_remove m u) u p)) u = p"
    if "distinct (map uo_ufid m)"
    using that g find_cmap_remove_distinct [of uo_ufid m u]
    by (simp add: ufid_to_portid_remove_def ufid_to_portid_add_def ufid_to_portid_search_def
          ufid_to_portid_get_def cmap_insert_def)
  from a b c show ?thesis by blast
qed

theorem ufid_to_portid_add_existing_unchanged_witness:
  "ufid_to_portid_search (ufid_to_portid_map state_with_offload) 5 = 1
   \<and> (1 :: odp_port_t) \<noteq> INVALID_ODP_PORT
   \<and> ufid_to_portid_add (ufid_to_portid_map state_with_offload) 5 2
       = (2, [\<lparr>uo_ufid = 5, uo_dp_port = 1\<rparr>])
   \<and> (\<exists>r info' s'.
         netdev_rte_offloads_flow_put drv_accept
           (state_with_offload
              \<lparr>port_map := [port_phys\<lparr>ufid_to_rte := [hw_offload_old]\<rparr>,
                            port_phys\<lparr>dp_port := 3, netdev := 30\<rparr>]\<rparr>)
           30 (match_in1\<lparr>flow := (flow match_in1)\<lparr>in_port := 3\<rparr>\<rparr>)
           (Some [OVS_ACTION_ATTR_OUTPUT 1]) 5 info0 = Some (r, info', s')
       \<and> ufid_to_portid_map s' = [\<lparr>uo_ufid = 5, uo_dp_port = 1\<rparr>]
       \<and> map_option (map ufid \<circ> ufid_to_rte) (netdev_rte_port_search 3 (port_map s')) = Some [5])
   \<and> ufid_to_portid_search
        (snd (ufid_to_portid_add
                (ufid_to_portid_remove (ufid_to_portid_map state_with_offload) 5) 5 3)) 5 = 3"
proof -
  let ?s = "state_with_offload
              \<lparr>port_map := [port_phys\<lparr>ufid_to_rte := [hw_offload_old]\<rparr>,
                            port_phys\<lparr>dp_port := 3, netdev := 30\<rparr>]\<rparr>"
  let ?m = "match_in1\<lparr>flow := (flow match_in1)\<lparr>in_port := 3\<rparr>\<rparr>"
  let ?R = "netdev_rte_offloads_flow_put drv_accept ?s 30 ?m (Some [OVS_ACTION_ATTR_OUTPUT 1]) 5 info0"
  have mp: "ufid_to_portid_map state_with_offload = [\<lparr>uo_ufid = 5, uo_dp_port = 1\<rparr>]"
    by (simp add: state_with_offload_def)
  have g: "ufid_to_portid_search (ufid_to_portid_map state_with_offload) 5 = 1"
    by (simp add: ufid_to_portid_search_def ufid_to_portid_get_def mp)
  have v: "(1 :: odp_port_t) \<noteq> INVALID_ODP_PORT"
    by (simp add: INVALID_ODP_PORT_def)
  from g v have p: "ufid_to_portid_search (ufid_to_portid_map state_with_offload) 5
                      \<noteq> INVALID_ODP_PORT"
    by simp
  have m: "ufid_to_portid_map ?s = ufid_to_portid_map state_with_offload"
    by simp
  have dst: "distinct (map uo_ufid (ufid_to_portid_map state_with_offload))"
    by (simp add: mp)
  have e: "map_option (\<lambda>(r, i, s). map_option (map ufid \<circ> ufid_to_rte)
             (netdev_rte_port_search 3 (port_map s))) ?R = Some (Some [5])"
    by (simp add: eval_defs example_defs)
  then obtain r info' s' where put: "?R = Some (r, info', s')"
    and reg: "map_option (map ufid \<circ> ufid_to_rte) (netdev_rte_port_search 3 (port_map s')) = Some [5]"
    by (cases ?R) auto
  note t2 = ufid_to_portid_add_existing_unchanged [OF p, of 2]
  note t3 = ufid_to_portid_add_existing_unchanged [OF p, of 3]
  from t2 have a: "ufid_to_portid_add (ufid_to_portid_map state_with_offload) 5 2
       = (2, [\<lparr>uo_ufid = 5, uo_dp_port = 1\<rparr>])"
    by (simp add: mp)
  from t2 m put have k: "ufid_to_portid_map s' = [\<lparr>uo_ufid = 5, uo_dp_port = 1\<rparr>]"
    unfolding mp by blast
  from t3 dst have c: "ufid_to_portid_search
        (snd (ufid_to_portid_add
                (ufid_to_portid_remove (ufid_to_portid_map state_with_offload) 5) 5 3)) 5 = 3"
    by blast
  from g v a put k reg c show ?thesis by blast
qed

subsection \<open>Failure of the default flow\<close>

text \<open>
  Claim C3, on the code. A tunnel-pop flow is put on port 1 of \<open>state_two_ports\<close>,
  with a driver that accepts the specific flow and rejects the default flow of the
  table (priority 1, mark and RSS). The driver sees two creations, the second one
  refused, and no destroy at all; the request returns 0, and the handle of the
  specific flow stays recorded under the ufid although the port has no default flow
  for table 2.
\<close>

theorem flow_put_default_flow_failure_keeps_flow:
  "map_option
     (\<lambda>(r, i, s).
        (r,
         map create_netdev (drv_calls s),
         map create_attr (drv_calls s),
         map create_action_types (drv_calls s),
         map create_result (drv_calls s),
         map destroy_target (drv_calls s),
         map_option (\<lambda>p. (map hw_offload_handles (ufid_to_rte p), default_rte_flow p ! 2))
           (netdev_rte_port_search 1 (port_map s))))
     (netdev_rte_offloads_flow_put drv_no_default state_two_ports 10 match_in1
        (Some [OVS_ACTION_ATTR_TUNNEL_POP 2]) 5 info0)
   = Some (0,
           [Some 10, Some 10],
           [Some \<lparr>attr_group = 0, attr_priority = 0, attr_ingress = True, attr_egress = False,
                   attr_transfer = True\<rparr>,
            Some \<lparr>attr_group = 2, attr_priority = 1, attr_ingress = True, attr_egress = False,
                   attr_transfer = False\<rparr>],
           [[RTE_FLOW_ACTION_TYPE_JUMP, RTE_FLOW_ACTION_TYPE_COUNT, RTE_FLOW_ACTION_TYPE_END],
            [RTE_FLOW_ACTION_TYPE_RSS, RTE_FLOW_ACTION_TYPE_MARK, RTE_FLOW_ACTION_TYPE_END]],
           [Some 1, None],
           [None, None],
           Some ([[(10, 1)]], None))"
  by (simp add: eval_defs example_defs)

subsection \<open>Requests without actions\<close>

text \<open>
  Claim C9, as amended. The flow put of a virtual port is
  \<^verbatim>\<open>netdev_rte_vport_flow_put\<close>. With no actions (a null list or an empty one) it
  hands back the state it was given, so nothing was destroyed, no record was
  allocated and the driver was not called; it returns 0 when the match passes
  \<^verbatim>\<open>netdev_rte_offloads_validate_flow\<close> and \<^verbatim>\<open>EOPNOTSUPP\<close> when it does not, since
  the validation comes first. \<^verbatim>\<open>netdev_vport_vxlan_add_rte_flow_offload\<close>, which it
  calls for a VXLAN port, returns 0 with the state unchanged.
\<close>

theorem vport_flow_put_without_actions:
  assumes "nl_actions = None \<or> nl_actions = Some []"
  shows "netdev_rte_vport_flow_put D s nd m nl_actions u info
           = Some (if netdev_rte_offloads_validate_flow m True = 0 then 0 else EOPNOTSUPP, info, s)
       \<and> netdev_vport_vxlan_add_rte_flow_offload D s rte_port m nl_actions u info
           = Some (0, info, s)"
  using assms
  by (auto simp: netdev_rte_vport_flow_put_def netdev_vport_vxlan_add_rte_flow_offload_def
        split: option.splits)

theorem vport_flow_put_without_actions_witness:
  "map_option (\<lambda>p. (rte_port_type p, map hw_offload_handles (ufid_to_rte p)))
     (netdev_rte_port_search (in_port (flow match_in2)) (port_map state_vxlan_offload))
     = Some (RTE_PORT_TYPE_VXLAN, [[(20, 77)]])
   \<and> netdev_rte_offloads_validate_flow match_in2 True = 0
   \<and> netdev_rte_vport_flow_put drv_accept state_vxlan_offload 20 match_in2 (Some []) 5 info0
       = Some (0, info0, state_vxlan_offload)
   \<and> netdev_rte_vport_flow_put drv_accept state_vxlan_offload 20 match_in2 None 5 info0
       = Some (0, info0, state_vxlan_offload)"
proof -
  have p: "map_option (\<lambda>p. (rte_port_type p, map hw_offload_handles (ufid_to_rte p)))
     (netdev_rte_port_search (in_port (flow match_in2)) (port_map state_vxlan_offload))
     = Some (RTE_PORT_TYPE_VXLAN, [[(20, 77)]])"
    by (simp add: netdev_rte_port_search_def state_vxlan_offload_def port_phys_def port_vxlan_def
          match_in2_def flow_zero_def hw_offload_handles_def List.map_filter_simps)
  have v: "netdev_rte_offloads_validate_flow match_in2 True = 0"
    by (simp add: netdev_rte_offloads_validate_flow_def match_init_def flow_tnl_and_def
          flow_tnl_is_all_zeros_def match_in2_def flow_zero_def flow_tnl_zero_def Let_def)
  have a: "Some [] = None \<or> Some ([] :: nlattr list) = Some []"
    by simp
  have b: "None = None \<or> (None :: nlattr list option) = Some []"
    by simp
  from vport_flow_put_without_actions [OF a, of drv_accept state_vxlan_offload 20 match_in2 5 info0]
       vport_flow_put_without_actions [OF b, of drv_accept state_vxlan_offload 20 match_in2 5 info0]
       p v
  show ?thesis by simp
qed

theorem vport_flow_put_without_actions_counterexample:
  "map_option rte_port_type
     (netdev_rte_port_search (in_port (flow match_in2_mark)) (port_map state_vxlan_offload))
     = Some RTE_PORT_TYPE_VXLAN
   \<and> netdev_rte_vport_flow_put drv_accept state_vxlan_offload 20 match_in2_mark (Some []) 5 info0
       = Some (95, info0, state_vxlan_offload)"
  by (simp add: netdev_rte_vport_flow_put_def netdev_rte_offloads_validate_flow_def
        match_init_def flow_tnl_and_def flow_tnl_is_all_zeros_def Let_def EOPNOTSUPP_def
        netdev_rte_port_search_def state_vxlan_offload_def port_phys_def port_vxlan_def
        match_in2_mark_def flow_zero_def flow_tnl_zero_def)

subsection \<open>VXLAN fan-out\<close>












lemma uplink_netdevs_cong:
  "map (\<lambda>p. (rte_port_type p, netdev p)) pm' = map (\<lambda>p. (rte_port_type p, netdev p)) pm \<Longrightarrow>
   uplink_netdevs D pm' = uplink_netdevs D pm"
proof (induction pm arbitrary: pm')
  case Nil
  then show ?case by (simp add: uplink_netdevs_def)
next
  case (Cons a pm)
  from Cons.prems obtain b pm2 where pm': "pm' = b # pm2" by (cases pm') simp_all
  from Cons.prems pm' have hd: "rte_port_type b = rte_port_type a" "netdev b = netdev a"
    and tl: "map (\<lambda>p. (rte_port_type p, netdev p)) pm2 = map (\<lambda>p. (rte_port_type p, netdev p)) pm"
    by simp_all
  from Cons.IH [OF tl] show ?case
    by (simp add: pm' uplink_netdevs_def hd)
qed







lemmas vx_eval_defs =
  netdev_vport_vxlan_add_rte_flow_offload_def Let_def netdev_rte_port_search_def
  ufid_hw_offload_find_def ufid_hw_offload_remove_def ufid_hw_offload_add_def cmap_insert_def
  netdev_rte_port_ufid_hw_offload_free_def netdev_dpdk_rte_flow_destroy_def
  rte_port_write_def ufid_to_portid_add_def ufid_to_portid_search_def ufid_to_portid_get_def
  INVALID_ODP_PORT_def
  add_vport_vxlan_flow_patterns_def add_flow_patterns_def add_flow_pattern_def
  flow_patterns_init_def flow_actions_init_def nl_attrs_def items_mem_def
  ETH_TYPE_IP_def IPPROTO_ICMP_def IPPROTO_TCP_def IPPROTO_UDP_def IPPROTO_SCTP_def
  netdev_rte_offload_mark_rss_def add_flow_action_def free_flow_actions_def
  add_flow_rss_action_def netdev_dpdk_rte_flow_create_def
  netdev_rte_add_count_flow_action_def netdev_rte_add_decap_flow_action_def
  netdev_rte_add_port_id_flow_action_def get_output_port_def
  vxlan_fanout_step_def
  ufid_hw_offload_add_rte_flow_def netdev_rte_port_ufid_hw_offload_alloc_def
  VXLAN_TABLE_ID_def
  hw_offload_handles_def List.map_filter_simps deref_action_def deref_item_def

lemma replicate_3: "replicate 3 x = [x, x, x]"
  by (simp add: numeral_3_eq_3)

lemma fanout_three:
  "map_option
     (\<lambda>(r, i, s).
        (r,
         map create_netdev (drv_calls s),
         map create_action_types (drv_calls s),
         map create_result (drv_calls s),
         map destroy_target (drv_calls s),
         map_option (map hw_offload_handles \<circ> ufid_to_rte)
           (netdev_rte_port_search 4 (port_map s))))
     (netdev_vport_vxlan_add_rte_flow_offload drv_fail_12 state_three_uplinks
        (port_vxlan\<lparr>dp_port := 4\<rparr>) match_vxlan_in4 (Some [OVS_ACTION_ATTR_OUTPUT 1]) 5 info0)
   = Some (0,
           [Some 11, Some 12, Some 12, Some 13],
           [[RTE_FLOW_ACTION_TYPE_VXLAN_DECAP, RTE_FLOW_ACTION_TYPE_COUNT,
             RTE_FLOW_ACTION_TYPE_PORT_ID, RTE_FLOW_ACTION_TYPE_END],
            [RTE_FLOW_ACTION_TYPE_VXLAN_DECAP, RTE_FLOW_ACTION_TYPE_COUNT,
             RTE_FLOW_ACTION_TYPE_PORT_ID, RTE_FLOW_ACTION_TYPE_END],
            [RTE_FLOW_ACTION_TYPE_VXLAN_DECAP, RTE_FLOW_ACTION_TYPE_MARK,
             RTE_FLOW_ACTION_TYPE_RSS, RTE_FLOW_ACTION_TYPE_END],
            [RTE_FLOW_ACTION_TYPE_VXLAN_DECAP, RTE_FLOW_ACTION_TYPE_COUNT,
             RTE_FLOW_ACTION_TYPE_PORT_ID, RTE_FLOW_ACTION_TYPE_END]],
           [Some 1, None, None, Some 4],
           [None, None, None, None],
           Some [[(20, 1), (20, 4)]])"
  by (simp add: vx_eval_defs state_three_uplinks_def port_phys_def port_vxlan_def
        match_vxlan_in4_def flow_zero_def flow_tnl_zero_def info0_def drv_fail_12_def replicate_3)



end
